theory Spec2Isabelle
  imports Main "HOL-Library.Word" "HOL-Library.Signed_Division"
begin

unbundle bit_operations_syntax

section \<open>Machine types of Window.h and Window.cpp\<close>

text \<open>
  The Windows types the source uses are fixed-width: \<open>LONG\<close>, \<open>int\<close>, \<open>BOOL\<close> and
  \<open>HRESULT\<close> are signed 32-bit, \<open>UINT\<close> and \<open>DWORD\<close> unsigned 32-bit, \<open>ATOM\<close> is
  16-bit, and a handle (\<open>HWND\<close>, \<open>HINSTANCE\<close>, \<open>HMONITOR\<close>, \<open>HICON\<close>, ...) is a 64-bit
  pointer. All are words; the signed reading is \<open>sint\<close>, the signed comparison \<open><s\<close>.
\<close>

type_synonym LONG = "32 word"
type_synonym INT32 = "32 word"
type_synonym UINT = "32 word"
type_synonym DWORD = "32 word"
type_synonym BOOL = "32 word"
type_synonym HRESULT = "32 word"
type_synonym ATOM = "16 word"
type_synonym HANDLE = "64 word"
type_synonym HWND = "64 word"
type_synonym HINSTANCE = "64 word"
type_synonym HMONITOR = "64 word"

record RECT =
  rect_left :: LONG
  rect_top :: LONG
  rect_right :: LONG
  rect_bottom :: LONG

subsection \<open>Constants of the Windows SDK headers that the source names\<close>

definition NULL :: HANDLE where "NULL = 0"
definition TRUE :: BOOL where "TRUE = 1"
definition FALSE :: BOOL where "FALSE = 0"

definition WS_OVERLAPPED :: DWORD where "WS_OVERLAPPED = 0x00000000"
definition WS_CAPTION :: DWORD where "WS_CAPTION = 0x00C00000"
definition WS_SYSMENU :: DWORD where "WS_SYSMENU = 0x00080000"
definition WS_THICKFRAME :: DWORD where "WS_THICKFRAME = 0x00040000"
definition WS_MINIMIZEBOX :: DWORD where "WS_MINIMIZEBOX = 0x00020000"
definition WS_MAXIMIZEBOX :: DWORD where "WS_MAXIMIZEBOX = 0x00010000"
definition WS_OVERLAPPEDWINDOW :: DWORD where
  "WS_OVERLAPPEDWINDOW =
     WS_OVERLAPPED OR WS_CAPTION OR WS_SYSMENU OR WS_THICKFRAME OR WS_MINIMIZEBOX OR WS_MAXIMIZEBOX"

definition GWL_STYLE :: INT32 where "GWL_STYLE = - 16"
definition SM_CXSCREEN :: INT32 where "SM_CXSCREEN = 0"
definition SM_CYSCREEN :: INT32 where "SM_CYSCREEN = 1"
definition MONITOR_DEFAULTTONEAREST :: DWORD where "MONITOR_DEFAULTTONEAREST = 2"
definition SWP_NOACTIVATE :: UINT where "SWP_NOACTIVATE = 0x0010"
definition SWP_FRAMECHANGED :: UINT where "SWP_FRAMECHANGED = 0x0020"
definition SW_HIDE :: INT32 where "SW_HIDE = 0"
definition SW_NORMAL :: INT32 where "SW_NORMAL = 1"
definition SW_MAXIMIZE :: INT32 where "SW_MAXIMIZE = 3"
definition SW_SHOW :: INT32 where "SW_SHOW = 5"
definition HWND_TOP :: HWND where "HWND_TOP = 0"
definition HWND_TOPMOST :: HWND where "HWND_TOPMOST = - 1"
definition HWND_NOTOPMOST :: HWND where "HWND_NOTOPMOST = - 2"
definition CS_VREDRAW :: UINT where "CS_VREDRAW = 0x0001"
definition CS_HREDRAW :: UINT where "CS_HREDRAW = 0x0002"
definition COLOR_WINDOW :: HANDLE where "COLOR_WINDOW = 5"
definition IDC_ARROW :: HANDLE where "IDC_ARROW = 32512"

text \<open>\<open>Window.h\<close>, line 35.\<close>

definition WINDOW_CLASS_NAME :: string where
  "WINDOW_CLASS_NAME = ''DX12RenderWindowClass''"

subsection \<open>\<open>HRESULT\<close> tests, \<open>std::max<int>\<close>, assertions\<close>

definition SUCCEEDED :: "HRESULT \<Rightarrow> bool" where
  "SUCCEEDED hr = (0 \<le>s hr)"

definition FAILED :: "HRESULT \<Rightarrow> bool" where
  "FAILED hr = (hr <s 0)"

text \<open>
  Division of two \<open>int\<close>s in C++ truncates towards zero, as \<open>sdiv\<close> on the signed
  values does.
\<close>

definition div_int :: "INT32 \<Rightarrow> INT32 \<Rightarrow> INT32" where
  "div_int a b = word_of_int (sint a sdiv sint b)"

text \<open>\<open>std::max(a, b)\<close> is \<open>(a < b) ? b : a\<close>, here at type \<open>int\<close>.\<close>

definition max_int :: "INT32 \<Rightarrow> INT32 \<Rightarrow> INT32" where
  "max_int a b = (if a <s b then b else a)"

text \<open>
  The ways a member function of \<open>Window\<close> can end without returning: a failed
  \<open>assert\<close> (which aborts the process with the asserted text as diagnostic) and the
  exception of \<open>ThrowIfFailed\<close>.
\<close>

datatype error = AssertionFailed string | Thrown HRESULT

text \<open>
  The build configuration. \<open>Window.cpp\<close> tests \<open>_DEBUG\<close> itself (line 127), and the
  \<open>assert\<close> macro of \<open><cassert>\<close> expands to nothing when \<open>NDEBUG\<close> is defined. Neither
  macro is set in the sources: both are parameters of the model.
\<close>

record build =
  def_DEBUG :: bool
  def_NDEBUG :: bool

definition assert :: "build \<Rightarrow> bool \<Rightarrow> string \<Rightarrow> error + unit" where
  "assert bld cond text = (if def_NDEBUG bld \<or> cond then Inr () else Inl (AssertionFailed text))"

section \<open>The host windowing system\<close>

text \<open>
  The windowing system is not part of the repository. The model keeps of it what the
  calls of \<open>Window.cpp\<close> read and write: per existing window its rectangle, its style
  bits, the z-order position and the show command last requested for it; the primary
  screen's size; the monitors; and the answers the platform will give where it alone
  decides (chrome insets, the handle of the next window, the atom of the next class, the
  icon and cursor handles). Every call is appended to \<open>calls\<close>, so that "no platform call"
  is the statement that \<open>calls\<close> did not grow. A call on a handle that denotes no window
  fails and changes nothing but the trace.
\<close>

record os_window =
  ow_rect :: RECT
  ow_style :: DWORD
  ow_zorder :: HWND
  ow_show :: INT32

datatype proc_ref = WndProc

record WNDCLASSEXW =
  cbSize :: UINT
  style :: UINT
  lpfnWndProc :: proc_ref
  cbClsExtra :: INT32
  cbWndExtra :: INT32
  hInstance :: HINSTANCE
  hIcon :: HANDLE
  hCursor :: HANDLE
  hbrBackground :: HANDLE
  lpszMenuName :: HANDLE
  lpszClassName :: string
  hIconSm :: HANDLE

datatype call =
    Call_LoadIcon HINSTANCE HANDLE
  | Call_LoadCursor HINSTANCE HANDLE
  | Call_RegisterClassExW WNDCLASSEXW
  | Call_GetSystemMetrics INT32
  | Call_AdjustWindowRect RECT DWORD BOOL
  | Call_CreateWindowExW DWORD string string DWORD INT32 INT32 INT32 INT32 HWND HANDLE HINSTANCE HANDLE
  | Call_GetWindowRect HWND
  | Call_SetWindowLongW HWND INT32 LONG
  | Call_MonitorFromWindow HWND DWORD
  | Call_GetMonitorInfo HMONITOR
  | Call_SetWindowPos HWND HWND INT32 INT32 INT32 INT32 UINT
  | Call_ShowWindow HWND INT32

record world =
  windows :: "HWND \<rightharpoonup> os_window"
  screen_cx :: INT32
  screen_cy :: INT32
  monitors :: "HMONITOR \<rightharpoonup> RECT"
  nearest_monitor :: "RECT \<Rightarrow> HMONITOR"
  chrome :: "RECT \<Rightarrow> DWORD \<Rightarrow> BOOL \<Rightarrow> RECT"
  next_hwnd :: HWND
  next_atom :: ATOM
  icon_of :: "HINSTANCE \<Rightarrow> HANDLE \<Rightarrow> HANDLE"
  cursor_of :: "HINSTANCE \<Rightarrow> HANDLE \<Rightarrow> HANDLE"
  sizeof_WNDCLASSEX :: UINT
  calls :: "call list"

definition logged :: "call \<Rightarrow> world \<Rightarrow> world" where
  "logged c w = w\<lparr>calls := calls w @ [c]\<rparr>"

text \<open>The rectangle of a window placed at \<open>(x, y)\<close> with size \<open>cx\<close> by \<open>cy\<close>.\<close>

definition rect_at :: "INT32 \<Rightarrow> INT32 \<Rightarrow> INT32 \<Rightarrow> INT32 \<Rightarrow> RECT" where
  "rect_at x y cx cy = \<lparr>rect_left = x, rect_top = y, rect_right = x + cx, rect_bottom = y + cy\<rparr>"

text \<open>\<open>GetWindowRect\<close>: the rectangle written to the out-parameter, \<open>None\<close> on failure.\<close>

definition GetWindowRect :: "HWND \<Rightarrow> world \<Rightarrow> RECT option \<times> world" where
  "GetWindowRect hWnd w =
     (map_option ow_rect (windows w hWnd), logged (Call_GetWindowRect hWnd) w)"

text \<open>\<open>SetWindowLongW\<close>: index \<open>GWL_STYLE\<close> replaces the style bits of the window.\<close>

definition SetWindowLongW :: "HWND \<Rightarrow> INT32 \<Rightarrow> LONG \<Rightarrow> world \<Rightarrow> world" where
  "SetWindowLongW hWnd nIndex dwNewLong w =
     (let w1 = logged (Call_SetWindowLongW hWnd nIndex dwNewLong) w in
      case windows w hWnd of
        None \<Rightarrow> w1
      | Some ow \<Rightarrow>
          if nIndex = GWL_STYLE
          then w1\<lparr>windows := (windows w)(hWnd \<mapsto> ow\<lparr>ow_style := dwNewLong\<rparr>)\<rparr>
          else w1)"

text \<open>\<open>MonitorFromWindow\<close>: a monitor handle, \<open>NULL\<close> when the handle denotes no window.\<close>

definition MonitorFromWindow :: "HWND \<Rightarrow> DWORD \<Rightarrow> world \<Rightarrow> HMONITOR \<times> world" where
  "MonitorFromWindow hWnd dwFlags w =
     (case windows w hWnd of
        None \<Rightarrow> NULL
      | Some ow \<Rightarrow> nearest_monitor w (ow_rect ow),
      logged (Call_MonitorFromWindow hWnd dwFlags) w)"

text \<open>\<open>GetMonitorInfo\<close>: the monitor's rectangle \<open>rcMonitor\<close>, \<open>None\<close> on failure.\<close>

definition GetMonitorInfo :: "HMONITOR \<Rightarrow> world \<Rightarrow> RECT option \<times> world" where
  "GetMonitorInfo hMonitor w = (monitors w hMonitor, logged (Call_GetMonitorInfo hMonitor) w)"

text \<open>
  \<open>SetWindowPos\<close>, as the source uses it (neither \<open>SWP_NOMOVE\<close>, \<open>SWP_NOSIZE\<close> nor
  \<open>SWP_NOZORDER\<close>): the window gets the requested position, size and z-order place.
  \<open>ShowWindow\<close> is kept as the show command last requested and does not, in this
  model, move the window.
\<close>

definition SetWindowPos ::
  "HWND \<Rightarrow> HWND \<Rightarrow> INT32 \<Rightarrow> INT32 \<Rightarrow> INT32 \<Rightarrow> INT32 \<Rightarrow> UINT \<Rightarrow> world \<Rightarrow> world" where
  "SetWindowPos hWnd hWndInsertAfter X Y cx cy uFlags w =
     (let w1 = logged (Call_SetWindowPos hWnd hWndInsertAfter X Y cx cy uFlags) w in
      case windows w hWnd of
        None \<Rightarrow> w1
      | Some ow \<Rightarrow>
          w1\<lparr>windows := (windows w)(hWnd \<mapsto>
                ow\<lparr>ow_rect := rect_at X Y cx cy, ow_zorder := hWndInsertAfter\<rparr>)\<rparr>)"

definition ShowWindow :: "HWND \<Rightarrow> INT32 \<Rightarrow> world \<Rightarrow> world" where
  "ShowWindow hWnd nCmdShow w =
     (let w1 = logged (Call_ShowWindow hWnd nCmdShow) w in
      case windows w hWnd of
        None \<Rightarrow> w1
      | Some ow \<Rightarrow> w1\<lparr>windows := (windows w)(hWnd \<mapsto> ow\<lparr>ow_show := nCmdShow\<rparr>)\<rparr>)"

text \<open>\<open>LoadIcon\<close>, \<open>LoadCursor\<close>: the platform's handle for the named resource.\<close>

definition LoadIcon :: "HINSTANCE \<Rightarrow> HANDLE \<Rightarrow> world \<Rightarrow> HANDLE \<times> world" where
  "LoadIcon hInst lpIconName w = (icon_of w hInst lpIconName, logged (Call_LoadIcon hInst lpIconName) w)"

definition LoadCursor :: "HINSTANCE \<Rightarrow> HANDLE \<Rightarrow> world \<Rightarrow> HANDLE \<times> world" where
  "LoadCursor hInst lpCursorName w =
     (cursor_of w hInst lpCursorName, logged (Call_LoadCursor hInst lpCursorName) w)"

text \<open>\<open>RegisterClassExW\<close>: the atom the platform answers with, 0 on failure.\<close>

definition RegisterClassExW :: "WNDCLASSEXW \<Rightarrow> world \<Rightarrow> ATOM \<times> world" where
  "RegisterClassExW wc w = (next_atom w, logged (Call_RegisterClassExW wc) w)"

definition GetSystemMetrics :: "INT32 \<Rightarrow> world \<Rightarrow> INT32 \<times> world" where
  "GetSystemMetrics nIndex w =
     (if nIndex = SM_CXSCREEN then screen_cx w
      else if nIndex = SM_CYSCREEN then screen_cy w
      else 0,
      logged (Call_GetSystemMetrics nIndex) w)"

text \<open>\<open>AdjustWindowRect\<close>: the client rectangle grown by the platform's chrome insets.\<close>

definition AdjustWindowRect :: "RECT \<Rightarrow> DWORD \<Rightarrow> BOOL \<Rightarrow> world \<Rightarrow> RECT \<times> world" where
  "AdjustWindowRect lpRect dwStyle bMenu w =
     (chrome w lpRect dwStyle bMenu, logged (Call_AdjustWindowRect lpRect dwStyle bMenu) w)"

text \<open>
  \<open>CreateWindowExW\<close>: the platform answers with \<open>next_hwnd\<close>; \<open>NULL\<close> is its failure.
  A created window has the requested rectangle and style, is hidden and on top.
\<close>

definition CreateWindowExW ::
  "DWORD \<Rightarrow> string \<Rightarrow> string \<Rightarrow> DWORD \<Rightarrow> INT32 \<Rightarrow> INT32 \<Rightarrow> INT32 \<Rightarrow> INT32 \<Rightarrow>
   HWND \<Rightarrow> HANDLE \<Rightarrow> HINSTANCE \<Rightarrow> HANDLE \<Rightarrow> world \<Rightarrow> HWND \<times> world" where
  "CreateWindowExW dwExStyle lpClassName lpWindowName dwStyle X Y nWidth nHeight
     hWndParent hMenu hInst lpParam w =
     (let w1 = logged (Call_CreateWindowExW dwExStyle lpClassName lpWindowName dwStyle
                  X Y nWidth nHeight hWndParent hMenu hInst lpParam) w;
          h = next_hwnd w
      in if h = NULL then (NULL, w1)
         else (h, w1\<lparr>windows := (windows w)(h \<mapsto>
                 \<lparr>ow_rect = rect_at X Y nWidth nHeight, ow_style = dwStyle,
                  ow_zorder = HWND_TOP, ow_show = SW_HIDE\<rparr>)\<rparr>))"

section \<open>The class \<open>Window\<close>\<close>

text \<open>\<open>Window.h\<close>, lines 45 to 49: the three data members.\<close>

record Window =
  g_Fullscreen :: bool
  g_WindowRect :: RECT
  g_hWnd :: HWND

text \<open>The all-zero rectangle of \<open>MONITORINFOEX monitorInfo = {}\<close>.\<close>

definition zero_RECT :: RECT where
  "zero_RECT = \<lparr>rect_left = 0, rect_top = 0, rect_right = 0, rect_bottom = 0\<rparr>"

text \<open>The local \<open>windowStyle\<close> of \<open>SetFullscreen\<close>, \<open>Window.cpp\<close> line 231.\<close>

definition windowStyle :: UINT where
  "windowStyle = WS_OVERLAPPEDWINDOW AND
     NOT (WS_CAPTION OR WS_SYSMENU OR WS_THICKFRAME OR WS_MINIMIZEBOX OR WS_MAXIMIZEBOX)"

text \<open>
  \<open>Window::SetFullscreen\<close>, \<open>Window.cpp\<close> lines 217 to 284. The return values of the
  platform calls are ignored by the source; a failed \<open>GetWindowRect\<close> leaves
  \<open>g_WindowRect\<close> as it was and a failed \<open>GetMonitorInfo\<close> leaves \<open>rcMonitor\<close> zeroed.
  The macro \<open>SetWindowLong\<close> of line 268 is \<open>SetWindowLongW\<close>, the function line 233
  names.
\<close>

definition SetFullscreen :: "bool \<Rightarrow> Window \<times> world \<Rightarrow> Window \<times> world" where
  "SetFullscreen fullscreen = (\<lambda>(this, w).
     if g_Fullscreen this \<noteq> fullscreen then
       let this1 = this\<lparr>g_Fullscreen := fullscreen\<rparr> in
       if g_Fullscreen this1 then
         let (r, w1) = GetWindowRect (g_hWnd this1) w;
             this2 = (case r of None \<Rightarrow> this1 | Some rc \<Rightarrow> this1\<lparr>g_WindowRect := rc\<rparr>);
             w2 = SetWindowLongW (g_hWnd this2) GWL_STYLE windowStyle w1;
             (hMonitor, w3) = MonitorFromWindow (g_hWnd this2) MONITOR_DEFAULTTONEAREST w2;
             (mi, w4) = GetMonitorInfo hMonitor w3;
             rcMonitor = (case mi of None \<Rightarrow> zero_RECT | Some rc \<Rightarrow> rc);
             w5 = SetWindowPos (g_hWnd this2) HWND_TOP
                    (rect_left rcMonitor)
                    (rect_top rcMonitor)
                    (rect_right rcMonitor - rect_left rcMonitor)
                    (rect_bottom rcMonitor - rect_top rcMonitor)
                    (SWP_FRAMECHANGED OR SWP_NOACTIVATE) w4;
             w6 = ShowWindow (g_hWnd this2) SW_MAXIMIZE w5
         in (this2, w6)
       else
         let w1 = SetWindowLongW (g_hWnd this1) GWL_STYLE WS_OVERLAPPEDWINDOW w;
             w2 = SetWindowPos (g_hWnd this1) HWND_NOTOPMOST
                    (rect_left (g_WindowRect this1))
                    (rect_top (g_WindowRect this1))
                    (rect_right (g_WindowRect this1) - rect_left (g_WindowRect this1))
                    (rect_bottom (g_WindowRect this1) - rect_top (g_WindowRect this1))
                    (SWP_FRAMECHANGED OR SWP_NOACTIVATE) w1;
             w3 = ShowWindow (g_hWnd this1) SW_NORMAL w2
         in (this1, w3)
     else (this, w))"

text \<open>\<open>Window.h\<close>, line 60.\<close>

definition ToggleFullscreen :: "Window \<times> world \<Rightarrow> Window \<times> world" where
  "ToggleFullscreen = (\<lambda>(this, w). SetFullscreen (\<not> g_Fullscreen this) (this, w))"

text \<open>\<open>Window.h\<close>, lines 73 and 74.\<close>

definition GetHWND :: "Window \<Rightarrow> HWND" where
  "GetHWND this = g_hWnd this"

definition Show :: "Window \<times> world \<Rightarrow> Window \<times> world" where
  "Show = (\<lambda>(this, w). (this, ShowWindow (g_hWnd this) SW_SHOW w))"

text \<open>
  \<open>Window::RegisterWindowClass\<close>, \<open>Window.cpp\<close> lines 13 to 39. The function-local
  \<open>static ATOM atom\<close> is state of the process, not of a \<open>Window\<close>: \<open>None\<close> until
  its initialiser has run, which C++ runs the first time control passes the declaration
  and never again. The descriptor is filled in, with its three resource lookups, on every
  call.
\<close>

definition RegisterWindowClass ::
  "build \<Rightarrow> HINSTANCE \<Rightarrow> ATOM option \<times> world \<Rightarrow> (error + unit) \<times> ATOM option \<times> world" where
  "RegisterWindowClass bld hInst = (\<lambda>(atom, w).
     let (icon, w1) = LoadIcon hInst NULL w;
         (cursor, w2) = LoadCursor NULL IDC_ARROW w1;
         (iconSm, w3) = LoadIcon hInst NULL w2;
         windowClass =
           \<lparr>cbSize = sizeof_WNDCLASSEX w,
            style = CS_HREDRAW OR CS_VREDRAW,
            lpfnWndProc = WndProc,
            cbClsExtra = 0,
            cbWndExtra = 0,
            hInstance = hInst,
            hIcon = icon,
            hCursor = cursor,
            hbrBackground = COLOR_WINDOW + 1,
            lpszMenuName = NULL,
            lpszClassName = WINDOW_CLASS_NAME,
            hIconSm = iconSm\<rparr>
     in case atom of
          None \<Rightarrow>
            let (a, w4) = RegisterClassExW windowClass w3
            in (assert bld (0 < a) ''atom > 0'', Some a, w4)
        | Some a \<Rightarrow> (assert bld (0 < a) ''atom > 0'', Some a, w3))"

text \<open>
  A process that calls \<open>RegisterWindowClass\<close> once for each instance handle of the
  list, from whichever \<open>Window\<close> objects; a failed assertion ends the process.
\<close>

fun RegisterWindowClass_calls ::
  "build \<Rightarrow> HINSTANCE list \<Rightarrow> ATOM option \<times> world \<Rightarrow> ATOM option \<times> world" where
  "RegisterWindowClass_calls bld [] s = s"
| "RegisterWindowClass_calls bld (hInst # rest) s =
     (case RegisterWindowClass bld hInst s of
        (Inl e, s') \<Rightarrow> s'
      | (Inr u, s') \<Rightarrow> RegisterWindowClass_calls bld rest s')"

fun is_RegisterClassExW :: "call \<Rightarrow> bool" where
  "is_RegisterClassExW (Call_RegisterClassExW wc) = True"
| "is_RegisterClassExW c = False"

definition registrations :: "world \<Rightarrow> nat" where
  "registrations w = length (filter is_RegisterClassExW (calls w))"

text \<open>
  \<open>Window::CreateWindow\<close>, \<open>Window.cpp\<close> lines 42 to 86. \<open>static_cast<LONG>\<close> of a
  \<open>UINT\<close> keeps the 32 bits. The result is the handle returned, or the failed assertion.
\<close>

definition CreateWindow ::
  "build \<Rightarrow> HINSTANCE \<Rightarrow> string \<Rightarrow> UINT \<Rightarrow> UINT \<Rightarrow> Window \<times> world \<Rightarrow>
   (error + HWND) \<times> Window \<times> world" where
  "CreateWindow bld hInst windowTitle width height = (\<lambda>(this, w).
     let (screenWidth, w1) = GetSystemMetrics SM_CXSCREEN w;
         (screenHeight, w2) = GetSystemMetrics SM_CYSCREEN w1;
         (windowRect, w3) =
           AdjustWindowRect
             \<lparr>rect_left = 0, rect_top = 0, rect_right = width, rect_bottom = height\<rparr>
             WS_OVERLAPPEDWINDOW FALSE w2;
         windowWidth = rect_right windowRect - rect_left windowRect;
         windowHeight = rect_bottom windowRect - rect_top windowRect;
         windowX = max_int 0 (div_int (screenWidth - windowWidth) 2);
         windowY = max_int 0 (div_int (screenHeight - windowHeight) 2);
         (h, w4) =
           CreateWindowExW 0 WINDOW_CLASS_NAME windowTitle WS_OVERLAPPEDWINDOW
             windowX windowY windowWidth windowHeight NULL NULL hInst NULL w3;
         this1 = this\<lparr>g_hWnd := h\<rparr>
     in case assert bld (g_hWnd this1 \<noteq> NULL) ''Failed to create window'' of
          Inl e \<Rightarrow> (Inl e, this1, w4)
        | Inr u \<Rightarrow>
            let (r, w5) = GetWindowRect (g_hWnd this1) w4;
                this2 = (case r of None \<Rightarrow> this1 | Some rc \<Rightarrow> this1\<lparr>g_WindowRect := rc\<rparr>)
            in (Inr (g_hWnd this2), this2, w5))"

section \<open>The graphics infrastructure (DXGI)\<close>

text \<open>
  DXGI is not part of the repository either. What \<open>Window.cpp\<close> reads of it are the
  \<open>HRESULT\<close>s of its calls and the \<open>BOOL\<close> that \<open>CheckFeatureSupport\<close> leaves in the
  caller's buffer; these answers are the fields of \<open>dxgi\<close>. A swap chain is an opaque
  platform object: the model keeps of it the queue, window and description it was
  created from.
\<close>

definition DXGI_CREATE_FACTORY_DEBUG :: UINT where "DXGI_CREATE_FACTORY_DEBUG = 0x01"
definition DXGI_FEATURE_PRESENT_ALLOW_TEARING :: UINT where "DXGI_FEATURE_PRESENT_ALLOW_TEARING = 0"
definition DXGI_SWAP_CHAIN_FLAG_ALLOW_TEARING :: UINT where "DXGI_SWAP_CHAIN_FLAG_ALLOW_TEARING = 2048"
definition DXGI_FORMAT_R8G8B8A8_UNORM :: UINT where "DXGI_FORMAT_R8G8B8A8_UNORM = 28"
definition DXGI_USAGE_RENDER_TARGET_OUTPUT :: UINT where "DXGI_USAGE_RENDER_TARGET_OUTPUT = 0x00000020"
definition DXGI_SCALING_STRETCH :: UINT where "DXGI_SCALING_STRETCH = 0"
definition DXGI_SWAP_EFFECT_FLIP_DISCARD :: UINT where "DXGI_SWAP_EFFECT_FLIP_DISCARD = 4"
definition DXGI_ALPHA_MODE_UNSPECIFIED :: UINT where "DXGI_ALPHA_MODE_UNSPECIFIED = 0"
definition DXGI_MWA_NO_ALT_ENTER :: UINT where "DXGI_MWA_NO_ALT_ENTER = 2"

record DXGI_SAMPLE_DESC =
  Count :: UINT
  Quality :: UINT

record DXGI_SWAP_CHAIN_DESC1 =
  Width :: UINT
  Height :: UINT
  Format :: UINT
  Stereo :: BOOL
  SampleDesc :: DXGI_SAMPLE_DESC
  BufferUsage :: UINT
  BufferCount :: UINT
  Scaling :: UINT
  SwapEffect :: UINT
  AlphaMode :: UINT
  Flags :: UINT

record IDXGISwapChain4 =
  sc_queue :: HANDLE
  sc_hwnd :: HWND
  sc_desc :: DXGI_SWAP_CHAIN_DESC1

record dxgi =
  CreateDXGIFactory1 :: HRESULT
  As_IDXGIFactory5 :: HRESULT
  CheckFeatureSupport :: "UINT \<Rightarrow> BOOL \<Rightarrow> UINT \<Rightarrow> HRESULT \<times> BOOL"
  CreateDXGIFactory2 :: "UINT \<Rightarrow> HRESULT"
  CreateSwapChainForHwnd :: "HANDLE \<Rightarrow> HWND \<Rightarrow> DXGI_SWAP_CHAIN_DESC1 \<Rightarrow> HRESULT"
  MakeWindowAssociation :: "HWND \<Rightarrow> UINT \<Rightarrow> HRESULT"
  As_IDXGISwapChain4 :: HRESULT

text \<open>
  Modelled from the spec: \<open>ThrowIfFailed\<close> is declared in \<open>Helpers.h\<close>, which is not
  among the sources. The specification has every failing driver or platform call of the
  swap-chain construction escalated as a fatal error with no recovery path: a failure
  \<open>HRESULT\<close> ends the caller with an exception, a success lets it go on.
\<close>

definition ThrowIfFailed :: "HRESULT \<Rightarrow> error + unit" where
  "ThrowIfFailed hr = (if FAILED hr then Inl (Thrown hr) else Inr ())"

text \<open>
  \<open>Window::CheckTearingSupport\<close>, \<open>Window.cpp\<close> lines 92 to 116. \<open>CheckFeatureSupport\<close>
  is given the feature, the buffer (whose content is \<open>allowTearing\<close>) and its size,
  \<open>sizeof(BOOL) = 4\<close>, and answers with its \<open>HRESULT\<close> and the buffer's content after
  the call.
\<close>

definition CheckTearingSupport :: "dxgi \<Rightarrow> bool" where
  "CheckTearingSupport d =
     (let allowTearing = FALSE;
          allowTearing1 =
            (if SUCCEEDED (CreateDXGIFactory1 d) then
               if SUCCEEDED (As_IDXGIFactory5 d) then
                 let (hr, allowTearing2) =
                       CheckFeatureSupport d DXGI_FEATURE_PRESENT_ALLOW_TEARING allowTearing 4
                 in if FAILED hr then FALSE else allowTearing2
               else allowTearing
             else allowTearing)
      in allowTearing1 = TRUE)"

text \<open>The local \<open>swapChainDesc\<close> of \<open>CreateSwapChain\<close>, \<open>Window.cpp\<close> lines 145 to 163.\<close>

definition swapChainDesc :: "dxgi \<Rightarrow> UINT \<Rightarrow> UINT \<Rightarrow> UINT \<Rightarrow> DXGI_SWAP_CHAIN_DESC1" where
  "swapChainDesc d width height bufferCount =
     \<lparr>Width = width,
      Height = height,
      Format = DXGI_FORMAT_R8G8B8A8_UNORM,
      Stereo = FALSE,
      SampleDesc = \<lparr>Count = 1, Quality = 0\<rparr>,
      BufferUsage = DXGI_USAGE_RENDER_TARGET_OUTPUT,
      BufferCount = bufferCount,
      Scaling = DXGI_SCALING_STRETCH,
      SwapEffect = DXGI_SWAP_EFFECT_FLIP_DISCARD,
      AlphaMode = DXGI_ALPHA_MODE_UNSPECIFIED,
      Flags = (if CheckTearingSupport d then DXGI_SWAP_CHAIN_FLAG_ALLOW_TEARING else 0)\<rparr>"

text \<open>\<open>Window::CreateSwapChain\<close>, \<open>Window.cpp\<close> lines 120 to 184.\<close>

definition CreateSwapChain ::
  "build \<Rightarrow> dxgi \<Rightarrow> Window \<Rightarrow> HANDLE \<Rightarrow> UINT \<Rightarrow> UINT \<Rightarrow> UINT \<Rightarrow> error + IDXGISwapChain4" where
  "CreateSwapChain bld d this commandQueue width height bufferCount =
     (let createFactoryFlags = (if def_DEBUG bld then DXGI_CREATE_FACTORY_DEBUG else 0)
      in case ThrowIfFailed (CreateDXGIFactory2 d createFactoryFlags) of
           Inl e \<Rightarrow> Inl e
         | Inr u1 \<Rightarrow>
             let desc = swapChainDesc d width height bufferCount
             in case ThrowIfFailed (CreateSwapChainForHwnd d commandQueue (g_hWnd this) desc) of
                  Inl e \<Rightarrow> Inl e
                | Inr u2 \<Rightarrow>
                    (case ThrowIfFailed (MakeWindowAssociation d (g_hWnd this) DXGI_MWA_NO_ALT_ENTER) of
                       Inl e \<Rightarrow> Inl e
                     | Inr u3 \<Rightarrow>
                         (case ThrowIfFailed (As_IDXGISwapChain4 d) of
                            Inl e \<Rightarrow> Inl e
                          | Inr u4 \<Rightarrow>
                              Inr \<lparr>sc_queue = commandQueue, sc_hwnd = g_hWnd this,
                                   sc_desc = desc\<rparr>)))"

text \<open>
  The platform's rule for flip-model swap chains, which the comment at line 157 of
  \<open>Window.cpp\<close> records (the minimum number of buffers when using the flip
  presentation model is two): DXGI refuses a flip-discard description with fewer than two
  buffers, whatever the queue and the window.
\<close>

definition flip_model_minimum :: "dxgi \<Rightarrow> bool" where
  "flip_model_minimum d =
     (\<forall>commandQueue hWnd desc.
        SwapEffect desc = DXGI_SWAP_EFFECT_FLIP_DISCARD \<and> BufferCount desc < 2 \<longrightarrow>
        FAILED (CreateSwapChainForHwnd d commandQueue hWnd desc))"

section \<open>A concrete desktop\<close>

text \<open>
  One window of 1296 by 759 pixels on a single 1920 by 1080 monitor, with chrome insets
  of 8 pixels and a 31 pixel caption; the inputs at which the theorems below are
  instantiated.
\<close>

definition example_window :: os_window where
  "example_window =
     \<lparr>ow_rect = \<lparr>rect_left = 312, rect_top = 160, rect_right = 1608, rect_bottom = 919\<rparr>,
      ow_style = WS_OVERLAPPEDWINDOW, ow_zorder = HWND_TOP, ow_show = SW_SHOW\<rparr>"

definition example_world :: world where
  "example_world =
     \<lparr>windows = [0x1A2B \<mapsto> example_window],
      screen_cx = 1920,
      screen_cy = 1080,
      monitors = [0x10001 \<mapsto> \<lparr>rect_left = 0, rect_top = 0, rect_right = 1920, rect_bottom = 1080\<rparr>],
      nearest_monitor = (\<lambda>r. 0x10001),
      chrome = (\<lambda>r st menu. \<lparr>rect_left = rect_left r - 8, rect_top = rect_top r - 31,
                 rect_right = rect_right r + 8, rect_bottom = rect_bottom r + 8\<rparr>),
      next_hwnd = 0x1A2C,
      next_atom = 0xC1A5,
      icon_of = (\<lambda>hInst name. 0),
      cursor_of = (\<lambda>hInst name. 0x10003),
      sizeof_WNDCLASSEX = 80,
      calls = []\<rparr>"

definition example_object :: Window where
  "example_object = \<lparr>g_Fullscreen = False, g_WindowRect = zero_RECT, g_hWnd = 0x1A2B\<rparr>"

text \<open>
  A debug and a release build, the same desktop when the platform refuses to create a
  window, and a \<open>Window\<close> object before \<open>CreateWindow\<close>.
\<close>

definition debug_build :: build where
  "debug_build = \<lparr>def_DEBUG = True, def_NDEBUG = False\<rparr>"

definition release_build :: build where
  "release_build = \<lparr>def_DEBUG = False, def_NDEBUG = True\<rparr>"

definition failing_world :: world where
  "failing_world = example_world\<lparr>next_hwnd := NULL\<rparr>"

definition new_Window :: Window where
  "new_Window = \<lparr>g_Fullscreen = False, g_WindowRect = zero_RECT, g_hWnd = NULL\<rparr>"

text \<open>
  The same window after the user has moved it, and an object in fullscreen mode that
  saved the window's first rectangle.
\<close>

definition moved_window :: os_window where
  "moved_window = example_window
     \<lparr>ow_rect := \<lparr>rect_left = 100, rect_top = 50, rect_right = 1396, rect_bottom = 809\<rparr>\<rparr>"

definition moved_world :: world where
  "moved_world = example_world\<lparr>windows := [0x1A2B \<mapsto> moved_window]\<rparr>"

definition fullscreen_object :: Window where
  "fullscreen_object = example_object
     \<lparr>g_Fullscreen := True,
      g_WindowRect := \<lparr>rect_left = 312, rect_top = 160, rect_right = 1608, rect_bottom = 919\<rparr>\<rparr>"

text \<open>
  Three sets of driver answers: one that grants everything asked of it, one without the
  \<open>IDXGIFactory5\<close> interface, and one that refuses a flip-model description with fewer
  than two buffers, as DXGI does.
\<close>

definition S_OK :: HRESULT where "S_OK = 0"

definition E_NOINTERFACE :: HRESULT where "E_NOINTERFACE = 0x80004002"


definition DXGI_ERROR_INVALID_CALL :: HRESULT where "DXGI_ERROR_INVALID_CALL = 0x887A0001"

definition example_dxgi :: dxgi where
  "example_dxgi =
     \<lparr>CreateDXGIFactory1 = S_OK,
      As_IDXGIFactory5 = S_OK,
      CheckFeatureSupport = (\<lambda>feature content size. (S_OK, TRUE)),
      CreateDXGIFactory2 = (\<lambda>flags. S_OK),
      CreateSwapChainForHwnd = (\<lambda>queue hWnd desc. S_OK),
      MakeWindowAssociation = (\<lambda>hWnd flags. S_OK),
      As_IDXGISwapChain4 = S_OK\<rparr>"

definition old_dxgi :: dxgi where
  "old_dxgi = example_dxgi\<lparr>As_IDXGIFactory5 := E_NOINTERFACE\<rparr>"

definition strict_dxgi :: dxgi where
  "strict_dxgi = example_dxgi
     \<lparr>CreateSwapChainForHwnd := (\<lambda>queue hWnd desc.
        if SwapEffect desc = DXGI_SWAP_EFFECT_FLIP_DISCARD \<and> BufferCount desc < 2
        then DXGI_ERROR_INVALID_CALL else S_OK)\<rparr>"

section \<open>Properties of the fullscreen toggle\<close>

text \<open>
  What the two transitions do to an existing window: the object, the trace and the
  window's entry after the call, in one equation each.
\<close>

lemma rect_at_span: "rect_at (rect_left r) (rect_top r) (rect_right r - rect_left r) (rect_bottom r - rect_top r) = (r::RECT)"
  by (simp add: rect_at_def)

lemma windowStyle_0: "windowStyle = 0"
  by (simp add: windowStyle_def WS_OVERLAPPEDWINDOW_def WS_OVERLAPPED_def WS_CAPTION_def
      WS_SYSMENU_def WS_THICKFRAME_def WS_MINIMIZEBOX_def WS_MAXIMIZEBOX_def)

lemma SetFullscreen_enter:
  assumes "\<not> g_Fullscreen this" and "windows w (g_hWnd this) = Some ow"
  shows "SetFullscreen True (this, w) =
    (let h = g_hWnd this; hm = nearest_monitor w (ow_rect ow);
         m = (case monitors w hm of None \<Rightarrow> zero_RECT | Some rc \<Rightarrow> rc)
     in (this\<lparr>g_Fullscreen := True, g_WindowRect := ow_rect ow\<rparr>,
      w\<lparr>calls := calls w @
          [Call_GetWindowRect h,
           Call_SetWindowLongW h GWL_STYLE windowStyle,
           Call_MonitorFromWindow h MONITOR_DEFAULTTONEAREST,
           Call_GetMonitorInfo hm,
           Call_SetWindowPos h HWND_TOP (rect_left m) (rect_top m)
             (rect_right m - rect_left m) (rect_bottom m - rect_top m)
             (SWP_FRAMECHANGED OR SWP_NOACTIVATE),
           Call_ShowWindow h SW_MAXIMIZE],
        windows := (windows w)(h \<mapsto>
            ow\<lparr>ow_style := windowStyle, ow_rect := m, ow_zorder := HWND_TOP, ow_show := SW_MAXIMIZE\<rparr>)\<rparr>))"
  using assms
  by (simp add: SetFullscreen_def Let_def GetWindowRect_def SetWindowLongW_def MonitorFromWindow_def
      GetMonitorInfo_def SetWindowPos_def ShowWindow_def logged_def rect_at_span
      split: prod.splits option.splits)

lemma SetFullscreen_leave:
  assumes "g_Fullscreen this" and "windows w (g_hWnd this) = Some ow"
  shows "SetFullscreen False (this, w) =
    (let h = g_hWnd this; r = g_WindowRect this
     in (this\<lparr>g_Fullscreen := False\<rparr>,
      w\<lparr>calls := calls w @
          [Call_SetWindowLongW h GWL_STYLE WS_OVERLAPPEDWINDOW,
           Call_SetWindowPos h HWND_NOTOPMOST (rect_left r) (rect_top r)
             (rect_right r - rect_left r) (rect_bottom r - rect_top r)
             (SWP_FRAMECHANGED OR SWP_NOACTIVATE),
           Call_ShowWindow h SW_NORMAL],
        windows := (windows w)(h \<mapsto>
            ow\<lparr>ow_style := WS_OVERLAPPEDWINDOW, ow_rect := r, ow_zorder := HWND_NOTOPMOST, ow_show := SW_NORMAL\<rparr>)\<rparr>))"
  using assms
  by (simp add: SetFullscreen_def Let_def SetWindowLongW_def SetWindowPos_def ShowWindow_def
      logged_def rect_at_span split: prod.splits option.splits)


text \<open>The same two transitions when the handle denotes no window: every call fails.\<close>

lemma SetFullscreen_enter_missing:
  assumes "\<not> g_Fullscreen this" and "windows w (g_hWnd this) = None"
  shows "SetFullscreen True (this, w) =
    (let h = g_hWnd this;
         m = (case monitors w NULL of None \<Rightarrow> zero_RECT | Some rc \<Rightarrow> rc)
     in (this\<lparr>g_Fullscreen := True\<rparr>,
      w\<lparr>calls := calls w @
          [Call_GetWindowRect h,
           Call_SetWindowLongW h GWL_STYLE windowStyle,
           Call_MonitorFromWindow h MONITOR_DEFAULTTONEAREST,
           Call_GetMonitorInfo NULL,
           Call_SetWindowPos h HWND_TOP (rect_left m) (rect_top m)
             (rect_right m - rect_left m) (rect_bottom m - rect_top m)
             (SWP_FRAMECHANGED OR SWP_NOACTIVATE),
           Call_ShowWindow h SW_MAXIMIZE]\<rparr>))"
  using assms
  by (simp add: SetFullscreen_def Let_def GetWindowRect_def SetWindowLongW_def MonitorFromWindow_def
      GetMonitorInfo_def SetWindowPos_def ShowWindow_def logged_def windowStyle_def
      split: prod.splits option.splits)

lemma SetFullscreen_leave_missing:
  assumes "g_Fullscreen this" and "windows w (g_hWnd this) = None"
  shows "SetFullscreen False (this, w) =
    (let h = g_hWnd this; r = g_WindowRect this
     in (this\<lparr>g_Fullscreen := False\<rparr>,
      w\<lparr>calls := calls w @
          [Call_SetWindowLongW h GWL_STYLE WS_OVERLAPPEDWINDOW,
           Call_SetWindowPos h HWND_NOTOPMOST (rect_left r) (rect_top r)
             (rect_right r - rect_left r) (rect_bottom r - rect_top r)
             (SWP_FRAMECHANGED OR SWP_NOACTIVATE),
           Call_ShowWindow h SW_NORMAL]\<rparr>))"
  using assms
  by (simp add: SetFullscreen_def Let_def SetWindowLongW_def SetWindowPos_def ShowWindow_def
      logged_def split: prod.splits option.splits)

text \<open>
  Claim C1. A call \<open>SetFullscreen desired\<close> where \<open>desired\<close> is the current value of
  the fullscreen flag makes no platform call and changes nothing: the object (flag, saved
  rectangle, handle) and the whole windowing state (every window's style, rectangle,
  z-order and show state, and the trace of calls) are returned as they were. So after any
  call \<open>SetFullscreen b\<close>, a second \<open>SetFullscreen b\<close> is the identity.
\<close>

theorem SetFullscreen_same_noop:
  "SetFullscreen (g_Fullscreen this) (this, w) = (this, w) \<and>
   calls (snd (SetFullscreen (g_Fullscreen this) (this, w))) = calls w \<and>
   SetFullscreen b (SetFullscreen b (this, w)) = SetFullscreen b (this, w)"
proof (intro conjI)
  show same: "SetFullscreen (g_Fullscreen this) (this, w) = (this, w)"
    by (simp add: SetFullscreen_def)
  then show "calls (snd (SetFullscreen (g_Fullscreen this) (this, w))) = calls w"
    by simp
next
  have flag: "g_Fullscreen (fst (SetFullscreen b (this, w))) = b"
    by (simp add: SetFullscreen_def Let_def split: prod.splits option.splits)
  obtain t' w' where eq: "SetFullscreen b (this, w) = (t', w')"
    by (cases "SetFullscreen b (this, w)")
  with flag have "g_Fullscreen t' = b" by simp
  then have "SetFullscreen b (t', w') = (t', w')"
    by (simp add: SetFullscreen_def)
  with eq show "SetFullscreen b (SetFullscreen b (this, w)) = SetFullscreen b (this, w)"
    by simp
qed

text \<open>
  Claim C2. From every state in windowed mode, \<open>SetFullscreen true\<close> saves in
  \<open>g_WindowRect\<close> the rectangle the window has at that moment, and the following
  \<open>SetFullscreen false\<close> hands exactly that rectangle to \<open>SetWindowPos\<close> (as left,
  top, right - left, bottom - top), after which the window has again the rectangle it had
  before entering fullscreen, in all four coordinates. (When the handle denotes no
  window there is no rectangle to save or restore: all calls fail and \<open>g_WindowRect\<close>
  keeps its value.)
\<close>

theorem SetFullscreen_round_trip:
  assumes windowed: "\<not> g_Fullscreen this"
  shows "let s1 = SetFullscreen True (this, w);
             s2 = SetFullscreen False s1;
             h = g_hWnd this;
             r = (case windows w h of None \<Rightarrow> g_WindowRect this | Some ow \<Rightarrow> ow_rect ow)
         in g_Fullscreen (fst s1) \<and> g_WindowRect (fst s1) = r \<and>
            \<not> g_Fullscreen (fst s2) \<and> g_WindowRect (fst s2) = r \<and>
            calls (snd s2) = calls (snd s1) @
              [Call_SetWindowLongW h GWL_STYLE WS_OVERLAPPEDWINDOW,
               Call_SetWindowPos h HWND_NOTOPMOST (rect_left r) (rect_top r)
                 (rect_right r - rect_left r) (rect_bottom r - rect_top r)
                 (SWP_FRAMECHANGED OR SWP_NOACTIVATE),
               Call_ShowWindow h SW_NORMAL] \<and>
            map_option ow_rect (windows (snd s2) h) = map_option ow_rect (windows w h)"
proof -
  obtain t1 w1 where s1: "SetFullscreen True (this, w) = (t1, w1)"
    by (cases "SetFullscreen True (this, w)")
  show ?thesis
  proof (cases "windows w (g_hWnd this)")
    case None
    from s1 have t1: "t1 = this\<lparr>g_Fullscreen := True\<rparr>"
      and no1: "windows w1 (g_hWnd this) = None"
      unfolding SetFullscreen_enter_missing [OF windowed None] using None
      by (auto simp: Let_def)
    from t1 no1 have full: "g_Fullscreen t1" and none1: "windows w1 (g_hWnd t1) = None"
      by simp_all
    show ?thesis
      unfolding s1 Let_def SetFullscreen_leave_missing [OF full none1]
      using t1 None no1 by simp
  next
    case (Some ow)
    from s1 have t1: "t1 = this\<lparr>g_Fullscreen := True, g_WindowRect := ow_rect ow\<rparr>"
      and ex1: "\<exists>ow1. windows w1 (g_hWnd this) = Some ow1"
      unfolding SetFullscreen_enter [OF windowed Some] by (auto simp: Let_def)
    from ex1 obtain ow1 where ow1: "windows w1 (g_hWnd t1) = Some ow1"
      using t1 by auto
    have full: "g_Fullscreen t1" using t1 by simp
    show ?thesis
      unfolding s1 Let_def SetFullscreen_leave [OF full ow1]
      using t1 Some by simp
  qed
qed

theorem SetFullscreen_round_trip_witness:
  "\<not> g_Fullscreen example_object \<and>
   windows example_world (g_hWnd example_object) = Some example_window \<and>
   g_WindowRect (fst (SetFullscreen True (example_object, example_world))) =
     \<lparr>rect_left = 312, rect_top = 160, rect_right = 1608, rect_bottom = 919\<rparr> \<and>
   map_option ow_rect (windows (snd (SetFullscreen True (example_object, example_world)))
      (g_hWnd example_object)) =
     Some \<lparr>rect_left = 0, rect_top = 0, rect_right = 1920, rect_bottom = 1080\<rparr> \<and>
   map_option ow_rect (windows (snd (SetFullscreen False (SetFullscreen True
      (example_object, example_world)))) (g_hWnd example_object)) =
     Some \<lparr>rect_left = 312, rect_top = 160, rect_right = 1608, rect_bottom = 919\<rparr>"
proof -
  have h1: "\<not> g_Fullscreen example_object"
    by (simp add: example_object_def)
  have h2: "windows example_world (g_hWnd example_object) = Some example_window"
    by (simp add: example_object_def example_world_def)
  have r: "ow_rect example_window =
      \<lparr>rect_left = 312, rect_top = 160, rect_right = 1608, rect_bottom = 919\<rparr>"
    by (simp add: example_window_def)
  have full: "map_option ow_rect (windows (snd (SetFullscreen True (example_object, example_world)))
      (g_hWnd example_object)) =
     Some \<lparr>rect_left = 0, rect_top = 0, rect_right = 1920, rect_bottom = 1080\<rparr>"
    unfolding SetFullscreen_enter [OF h1 h2]
    by (simp add: Let_def example_world_def)
  from SetFullscreen_round_trip [OF h1, of example_world] h1 h2 r full show ?thesis
    by (simp add: Let_def)
qed

text \<open>
  Claim C6. On the transition from windowed to borderless fullscreen of an existing
  window whose nearest monitor is known to the platform, \<open>SetFullscreen true\<close> makes
  exactly six calls, in this order: it reads the window rectangle (and saves it in
  \<open>g_WindowRect\<close>), writes a style with the caption, border, system-menu, sizing-frame
  and minimise/maximise bits all clear, asks for the monitor nearest to the window, reads
  that monitor's rectangle, moves and resizes the window to that rectangle at the top of
  the z-order (\<open>HWND_TOP\<close>) with \<open>SWP_NOACTIVATE\<close> set, and shows it maximized.
  Afterwards the window's rectangle is the monitor's rectangle.
\<close>

theorem SetFullscreen_enter_fullscreen:
  assumes windowed: "\<not> g_Fullscreen this"
    and exists: "windows w (g_hWnd this) = Some ow"
    and monitor: "monitors w (nearest_monitor w (ow_rect ow)) = Some m"
  shows "let s1 = SetFullscreen True (this, w); h = g_hWnd this
         in g_Fullscreen (fst s1) \<and>
            g_WindowRect (fst s1) = ow_rect ow \<and>
            calls (snd s1) = calls w @
              [Call_GetWindowRect h,
               Call_SetWindowLongW h GWL_STYLE windowStyle,
               Call_MonitorFromWindow h MONITOR_DEFAULTTONEAREST,
               Call_GetMonitorInfo (nearest_monitor w (ow_rect ow)),
               Call_SetWindowPos h HWND_TOP (rect_left m) (rect_top m)
                 (rect_right m - rect_left m) (rect_bottom m - rect_top m)
                 (SWP_FRAMECHANGED OR SWP_NOACTIVATE),
               Call_ShowWindow h SW_MAXIMIZE] \<and>
            windowStyle AND (WS_CAPTION OR WS_SYSMENU OR WS_THICKFRAME OR
              WS_MINIMIZEBOX OR WS_MAXIMIZEBOX) = 0 \<and>
            (SWP_FRAMECHANGED OR SWP_NOACTIVATE) AND SWP_NOACTIVATE = SWP_NOACTIVATE \<and>
            windows (snd s1) h =
              Some \<lparr>ow_rect = m, ow_style = windowStyle, ow_zorder = HWND_TOP,
                    ow_show = SW_MAXIMIZE\<rparr>"
proof -
  have bits: "windowStyle AND (WS_CAPTION OR WS_SYSMENU OR WS_THICKFRAME OR
      WS_MINIMIZEBOX OR WS_MAXIMIZEBOX) = 0"
    by (simp add: windowStyle_0)
  have flag: "(SWP_FRAMECHANGED OR SWP_NOACTIVATE) AND SWP_NOACTIVATE = SWP_NOACTIVATE"
    by (simp add: SWP_FRAMECHANGED_def SWP_NOACTIVATE_def)
  show ?thesis
    unfolding Let_def SetFullscreen_enter [OF windowed exists]
    using monitor bits flag by simp
qed

theorem SetFullscreen_enter_fullscreen_witness:
  "\<not> g_Fullscreen example_object \<and>
   windows example_world (g_hWnd example_object) = Some example_window \<and>
   monitors example_world (nearest_monitor example_world (ow_rect example_window)) =
     Some \<lparr>rect_left = 0, rect_top = 0, rect_right = 1920, rect_bottom = 1080\<rparr> \<and>
   windows (snd (SetFullscreen True (example_object, example_world))) 0x1A2B =
     Some \<lparr>ow_rect = \<lparr>rect_left = 0, rect_top = 0, rect_right = 1920, rect_bottom = 1080\<rparr>,
           ow_style = 0, ow_zorder = 0, ow_show = 3\<rparr>"
proof -
  have h1: "\<not> g_Fullscreen example_object"
    by (simp add: example_object_def)
  have h2: "windows example_world (g_hWnd example_object) = Some example_window"
    by (simp add: example_object_def example_world_def)
  have h3: "monitors example_world (nearest_monitor example_world (ow_rect example_window)) =
     Some \<lparr>rect_left = 0, rect_top = 0, rect_right = 1920, rect_bottom = 1080\<rparr>"
    by (simp add: example_world_def)
  have "g_hWnd example_object = 0x1A2B"
    by (simp add: example_object_def)
  with SetFullscreen_enter_fullscreen [OF h1 h2 h3] h1 h2 h3 show ?thesis
    by (simp add: Let_def windowStyle_0 HWND_TOP_def SW_MAXIMIZE_def)
qed

section \<open>Properties of window creation\<close>

text \<open>Signed 32-bit arithmetic read as integers.\<close>

lemma sint_sub_in_range:
  fixes a b :: "32 word"
  assumes "- (2 ^ 31) \<le> sint a - sint b" and "sint a - sint b < 2 ^ 31"
  shows "sint (a - b) = sint a - sint b"
  using assms by (simp add: sint_word_ariths signed_take_bit_int_eq_self)

lemma sdiv2_cases:
  fixes k :: int
  shows "k sdiv 2 = (if 0 \<le> k then k div 2 else - ((- k) div 2))"
  by (simp add: signed_divide_int_def sgn_if)

lemma sdiv2_bounds:
  fixes k :: int
  assumes "- 2147483648 \<le> k" and "k < 2147483648"
  shows "- 2147483648 \<le> k sdiv 2 \<and> k sdiv 2 < 2147483648"
  using assms unfolding sdiv2_cases by auto

lemma sint_div_int_2:
  fixes a :: "32 word"
  shows "sint (div_int a 2) = sint a sdiv 2"
proof -
  have "- 2147483648 \<le> sint a" "sint a < 2147483648"
    using sint_ge [of a] sint_lt [of a] by simp_all
  then have "- 2147483648 \<le> sint a sdiv 2 \<and> sint a sdiv 2 < 2147483648"
    by (rule sdiv2_bounds)
  then show ?thesis
    by (simp add: div_int_def sint_sbintrunc' signed_take_bit_int_eq_self)
qed

lemma max_int_nonneg: "0 \<le>s max_int 0 q"
  by (simp add: max_int_def word_sle_eq word_sless_alt)

lemma sint_max_int_0: "sint (max_int 0 q) = max 0 (sint q)"
  by (simp add: max_int_def word_sless_alt)

text \<open>
  \<open>CreateWindow\<close> in one equation for each answer of the platform: a window was
  created, or \<open>CreateWindowExW\<close> returned \<open>NULL\<close>.
\<close>

lemma CreateWindow_created:
  assumes "next_hwnd w \<noteq> NULL"
  shows "CreateWindow bld hInst windowTitle width height (this, w) =
    (let clientRect = \<lparr>rect_left = 0, rect_top = 0, rect_right = width, rect_bottom = height\<rparr>;
         windowRect = chrome w clientRect WS_OVERLAPPEDWINDOW FALSE;
         windowWidth = rect_right windowRect - rect_left windowRect;
         windowHeight = rect_bottom windowRect - rect_top windowRect;
         windowX = max_int 0 (div_int (screen_cx w - windowWidth) 2);
         windowY = max_int 0 (div_int (screen_cy w - windowHeight) 2);
         h = next_hwnd w
     in (Inr h,
         this\<lparr>g_WindowRect := rect_at windowX windowY windowWidth windowHeight, g_hWnd := h\<rparr>,
         w\<lparr>calls := calls w @
             [Call_GetSystemMetrics SM_CXSCREEN,
              Call_GetSystemMetrics SM_CYSCREEN,
              Call_AdjustWindowRect clientRect WS_OVERLAPPEDWINDOW FALSE,
              Call_CreateWindowExW 0 WINDOW_CLASS_NAME windowTitle WS_OVERLAPPEDWINDOW
                windowX windowY windowWidth windowHeight NULL NULL hInst NULL,
              Call_GetWindowRect h],
           windows := (windows w)(h \<mapsto>
             \<lparr>ow_rect = rect_at windowX windowY windowWidth windowHeight,
              ow_style = WS_OVERLAPPEDWINDOW, ow_zorder = HWND_TOP, ow_show = SW_HIDE\<rparr>)\<rparr>))"
  using assms
  by (simp add: CreateWindow_def Let_def GetSystemMetrics_def AdjustWindowRect_def
      CreateWindowExW_def GetWindowRect_def assert_def logged_def SM_CXSCREEN_def SM_CYSCREEN_def
      split: prod.splits)

lemma CreateWindow_not_created:
  assumes "next_hwnd w = NULL"
  shows "CreateWindow bld hInst windowTitle width height (this, w) =
    (let clientRect = \<lparr>rect_left = 0, rect_top = 0, rect_right = width, rect_bottom = height\<rparr>;
         windowRect = chrome w clientRect WS_OVERLAPPEDWINDOW FALSE;
         windowWidth = rect_right windowRect - rect_left windowRect;
         windowHeight = rect_bottom windowRect - rect_top windowRect;
         windowX = max_int 0 (div_int (screen_cx w - windowWidth) 2);
         windowY = max_int 0 (div_int (screen_cy w - windowHeight) 2);
         attempt =
           [Call_GetSystemMetrics SM_CXSCREEN,
            Call_GetSystemMetrics SM_CYSCREEN,
            Call_AdjustWindowRect clientRect WS_OVERLAPPEDWINDOW FALSE,
            Call_CreateWindowExW 0 WINDOW_CLASS_NAME windowTitle WS_OVERLAPPEDWINDOW
              windowX windowY windowWidth windowHeight NULL NULL hInst NULL]
     in if def_NDEBUG bld
        then (Inr NULL,
              (case windows w NULL of
                 None \<Rightarrow> this\<lparr>g_hWnd := NULL\<rparr>
               | Some ow \<Rightarrow> this\<lparr>g_WindowRect := ow_rect ow, g_hWnd := NULL\<rparr>),
              w\<lparr>calls := calls w @ attempt @ [Call_GetWindowRect NULL]\<rparr>)
        else (Inl (AssertionFailed ''Failed to create window''),
              this\<lparr>g_hWnd := NULL\<rparr>,
              w\<lparr>calls := calls w @ attempt\<rparr>))"
  using assms
  by (simp add: CreateWindow_def Let_def GetSystemMetrics_def AdjustWindowRect_def
      CreateWindowExW_def GetWindowRect_def assert_def logged_def SM_CXSCREEN_def SM_CYSCREEN_def
      split: prod.splits option.splits)

text \<open>
  Claim C3. For every requested client size (positive or not), the first four platform
  calls of \<open>CreateWindow\<close> are the two screen metrics, \<open>AdjustWindowRect\<close> on the
  client rectangle, and \<open>CreateWindowExW\<close> at position \<open>(windowX, windowY)\<close> with
  \<open>windowX = max(0, (screenWidth - windowWidth) / 2)\<close> and
  \<open>windowY = max(0, (screenHeight - windowHeight) / 2)\<close>, where \<open>windowWidth\<close> and
  \<open>windowHeight\<close> are the extents of the chrome-adjusted rectangle. Both coordinates
  are non-negative as signed values; they are the integer quotients clamped from below
  to 0 (of the 32-bit difference always, of the integer difference when it fits 32 bits);
  and a window that is created has its top-left corner there.
\<close>

theorem CreateWindow_centred:
  "let clientRect = \<lparr>rect_left = 0, rect_top = 0, rect_right = width, rect_bottom = height\<rparr>;
       windowRect = chrome w clientRect WS_OVERLAPPEDWINDOW FALSE;
       windowWidth = rect_right windowRect - rect_left windowRect;
       windowHeight = rect_bottom windowRect - rect_top windowRect;
       windowX = max_int 0 (div_int (screen_cx w - windowWidth) 2);
       windowY = max_int 0 (div_int (screen_cy w - windowHeight) 2);
       w' = snd (snd (CreateWindow bld hInst windowTitle width height (this, w)))
   in take 4 (drop (length (calls w)) (calls w')) =
        [Call_GetSystemMetrics SM_CXSCREEN,
         Call_GetSystemMetrics SM_CYSCREEN,
         Call_AdjustWindowRect clientRect WS_OVERLAPPEDWINDOW FALSE,
         Call_CreateWindowExW 0 WINDOW_CLASS_NAME windowTitle WS_OVERLAPPEDWINDOW
           windowX windowY windowWidth windowHeight NULL NULL hInst NULL] \<and>
      0 \<le>s windowX \<and> 0 \<le>s windowY \<and>
      sint windowX = max 0 (sint (screen_cx w - windowWidth) sdiv 2) \<and>
      sint windowY = max 0 (sint (screen_cy w - windowHeight) sdiv 2) \<and>
      (- (2 ^ 31) \<le> sint (screen_cx w) - sint windowWidth \<and>
       sint (screen_cx w) - sint windowWidth < 2 ^ 31 \<longrightarrow>
         sint windowX = max 0 ((sint (screen_cx w) - sint windowWidth) sdiv 2)) \<and>
      (- (2 ^ 31) \<le> sint (screen_cy w) - sint windowHeight \<and>
       sint (screen_cy w) - sint windowHeight < 2 ^ 31 \<longrightarrow>
         sint windowY = max 0 ((sint (screen_cy w) - sint windowHeight) sdiv 2)) \<and>
      (next_hwnd w \<noteq> NULL \<longrightarrow>
         map_option ow_rect (windows w' (next_hwnd w)) =
           Some (rect_at windowX windowY windowWidth windowHeight))"
proof (cases "next_hwnd w = NULL")
  case True
  show ?thesis
    unfolding Let_def CreateWindow_not_created [OF True]
    using True
    by (simp add: max_int_nonneg sint_max_int_0 sint_div_int_2 sint_sub_in_range)
next
  case False
  show ?thesis
    unfolding Let_def CreateWindow_created [OF False]
    using False
    by (simp add: max_int_nonneg sint_max_int_0 sint_div_int_2 sint_sub_in_range)
qed

theorem CreateWindow_centred_witness:
  "next_hwnd example_world \<noteq> NULL \<and>
   - (2 ^ 31) \<le> sint (screen_cx example_world) - sint (1296 :: INT32) \<and>
   sint (screen_cx example_world) - sint (1296 :: INT32) < 2 ^ 31 \<and>
   - (2 ^ 31) \<le> sint (screen_cy example_world) - sint (759 :: INT32) \<and>
   sint (screen_cy example_world) - sint (759 :: INT32) < 2 ^ 31 \<and>
   map_option ow_rect
     (windows (snd (snd (CreateWindow debug_build 0x400000 ''Test'' 1280 720
        (new_Window, example_world)))) 0x1A2C) =
     Some \<lparr>rect_left = 312, rect_top = 160, rect_right = 1608, rect_bottom = 919\<rparr>"
proof -
  have h: "next_hwnd example_world \<noteq> NULL"
    by (simp add: example_world_def NULL_def)
  have m: "max_int 0 (div_int 624 2) = 312" "max_int 0 (div_int 321 2) = 160"
    by (simp_all add: max_int_def div_int_def word_sless_alt)
  from CreateWindow_centred [of 1280 720 example_world debug_build "0x400000" "''Test''" new_Window]
  have "map_option ow_rect
     (windows (snd (snd (CreateWindow debug_build 0x400000 ''Test'' 1280 720
        (new_Window, example_world)))) 0x1A2C) =
     Some \<lparr>rect_left = 312, rect_top = 160, rect_right = 1608, rect_bottom = 919\<rparr>"
    using h by (simp add: Let_def example_world_def m rect_at_def)
  then show ?thesis
    using h by (simp add: example_world_def)
qed

text \<open>
  Claim C9. A failure of the platform to create the window is to be fatal: the program
  aborts with a diagnostic and no null handle reaches the caller. The code attempts this
  with the \<open>assert\<close> of line 80 and misses it in a build with \<open>NDEBUG\<close> defined,
  where the assertion is compiled out: when \<open>CreateWindowExW\<close> returns \<open>NULL\<close>,
  \<open>CreateWindow\<close> goes on to \<open>GetWindowRect\<close> and returns the null handle. (The
  sibling \<open>CreateSwapChain\<close> makes its failures fatal in every build, through
  \<open>ThrowIfFailed\<close>.)
\<close>

theorem CreateWindow_release_returns_null:
  "next_hwnd failing_world = NULL \<and>
   fst (CreateWindow release_build 0x400000 ''Test'' 1280 720 (new_Window, failing_world)) =
     Inr NULL"
proof -
  have h: "next_hwnd failing_world = NULL"
    by (simp add: failing_world_def)
  show ?thesis
    unfolding CreateWindow_not_created [OF h] Let_def
    using h by (simp add: release_build_def)
qed

text \<open>
  Where the assertion is live (\<open>NDEBUG\<close> not defined) the code does what is intended:
  a failed creation aborts with the diagnostic "Failed to create window", and every
  handle returned is non-null and denotes an existing window.
\<close>

lemma CreateWindow_failure_aborts:
  assumes "\<not> def_NDEBUG bld"
  shows "(next_hwnd w = NULL \<longrightarrow>
            fst (CreateWindow bld hInst windowTitle width height (this, w)) =
              Inl (AssertionFailed ''Failed to create window'')) \<and>
         (\<forall>h. fst (CreateWindow bld hInst windowTitle width height (this, w)) = Inr h \<longrightarrow>
            h \<noteq> NULL \<and>
            windows (snd (snd (CreateWindow bld hInst windowTitle width height (this, w)))) h
              \<noteq> None)"
proof (cases "next_hwnd w = NULL")
  case True
  show ?thesis
    unfolding CreateWindow_not_created [OF True] Let_def
    using assms True by simp
next
  case False
  show ?thesis
    unfolding CreateWindow_created [OF False] Let_def
    using False by auto
qed

lemma CreateWindow_failure_aborts_example:
  "\<not> def_NDEBUG debug_build \<and>
   next_hwnd failing_world = NULL \<and>
   fst (CreateWindow debug_build 0x400000 ''Test'' 1280 720 (new_Window, failing_world)) =
     Inl (AssertionFailed ''Failed to create window'')"
proof -
  have b: "\<not> def_NDEBUG debug_build"
    by (simp add: debug_build_def)
  have h: "next_hwnd failing_world = NULL"
    by (simp add: failing_world_def)
  from CreateWindow_failure_aborts [OF b, of failing_world "0x400000" "''Test''" 1280 720 new_Window]
  show ?thesis using b h by simp
qed

section \<open>Properties of the class registration\<close>

text \<open>
  One call registers exactly when the static is not yet initialised, and leaves it
  initialised; so does any sequence of calls.
\<close>

lemma registrations_logged:
  "registrations (logged c w) = registrations w + (if is_RegisterClassExW c then 1 else 0)"
  by (simp add: registrations_def logged_def)

lemma RegisterWindowClass_once:
  "registrations (snd (snd (RegisterWindowClass bld hInst (atom, w)))) =
     registrations w + (if atom = None then 1 else 0) \<and>
   fst (snd (RegisterWindowClass bld hInst (atom, w))) \<noteq> None"
  by (simp add: RegisterWindowClass_def Let_def LoadIcon_def LoadCursor_def RegisterClassExW_def
      registrations_logged split: prod.splits option.splits)

lemma RegisterWindowClass_calls_count:
  "registrations (snd (RegisterWindowClass_calls bld hs (atom, w))) =
     registrations w + (if atom = None \<and> hs \<noteq> [] then 1 else 0)"
proof (induction hs arbitrary: atom w)
  case Nil
  show ?case by simp
next
  case (Cons hInst rest)
  obtain res atom' w' where step: "RegisterWindowClass bld hInst (atom, w) = (res, atom', w')"
    by (cases "RegisterWindowClass bld hInst (atom, w)")
  from RegisterWindowClass_once [of bld hInst atom w] step
  have cnt: "registrations w' = registrations w + (if atom = None then 1 else 0)"
    and init: "atom' \<noteq> None"
    by simp_all
  show ?case
  proof (cases res)
    case (Inl e)
    with step cnt show ?thesis by simp
  next
    case (Inr u)
    with step have "RegisterWindowClass_calls bld (hInst # rest) (atom, w) =
        RegisterWindowClass_calls bld rest (atom', w')"
      by simp
    with Cons.IH [of atom' w'] init cnt show ?thesis by simp
  qed
qed

lemma RegisterWindowClass_calls_initialised:
  "fst (RegisterWindowClass_calls bld hs (atom, w)) = None \<longleftrightarrow> atom = None \<and> hs = []"
proof (induction hs arbitrary: atom w)
  case Nil
  show ?case by simp
next
  case (Cons hInst rest)
  obtain res atom' w' where step: "RegisterWindowClass bld hInst (atom, w) = (res, atom', w')"
    by (cases "RegisterWindowClass bld hInst (atom, w)")
  with RegisterWindowClass_once [of bld hInst atom w] have init: "atom' \<noteq> None"
    by simp
  show ?case
  proof (cases res)
    case (Inl e)
    with step init show ?thesis by simp
  next
    case (Inr u)
    with step Cons.IH [of atom' w'] init show ?thesis by simp
  qed
qed

text \<open>
  Claim C8. Over every sequence of calls of \<open>RegisterWindowClass\<close> in one process, from
  whichever \<open>Window\<close> objects and in either build, \<open>RegisterClassExW\<close> is called at most
  once: exactly once by a non-empty sequence that starts with the static uninitialised,
  never once the static is initialised, and a further sequence of calls after a
  non-empty one adds no registration.
\<close>

theorem RegisterClassExW_at_most_once:
  "registrations (snd (RegisterWindowClass_calls bld hs (None, w))) =
     registrations w + (if hs = [] then 0 else 1) \<and>
   registrations (snd (RegisterWindowClass_calls bld hs (Some a, w))) = registrations w \<and>
   registrations (snd (RegisterWindowClass_calls bld hs (atom, w))) \<le> registrations w + 1 \<and>
   registrations
     (snd (RegisterWindowClass_calls bld hs' (RegisterWindowClass_calls bld hs (atom, w)))) =
   registrations (snd (RegisterWindowClass_calls bld hs (atom, w))) +
     (if atom = None \<and> hs = [] \<and> hs' \<noteq> [] then 1 else 0)"
proof (intro conjI)
  show "registrations (snd (RegisterWindowClass_calls bld hs (None, w))) =
     registrations w + (if hs = [] then 0 else 1)"
    by (simp add: RegisterWindowClass_calls_count)
  show "registrations (snd (RegisterWindowClass_calls bld hs (Some a, w))) = registrations w"
    by (simp add: RegisterWindowClass_calls_count)
  show "registrations (snd (RegisterWindowClass_calls bld hs (atom, w))) \<le> registrations w + 1"
    by (simp add: RegisterWindowClass_calls_count)
next
  obtain atom' w' where s: "RegisterWindowClass_calls bld hs (atom, w) = (atom', w')"
    by (cases "RegisterWindowClass_calls bld hs (atom, w)")
  with RegisterWindowClass_calls_initialised [of bld hs atom w]
  have keep: "atom' = None \<longleftrightarrow> atom = None \<and> hs = []"
    by simp
  show "registrations
     (snd (RegisterWindowClass_calls bld hs' (RegisterWindowClass_calls bld hs (atom, w)))) =
   registrations (snd (RegisterWindowClass_calls bld hs (atom, w))) +
     (if atom = None \<and> hs = [] \<and> hs' \<noteq> [] then 1 else 0)"
    unfolding s using keep by (simp add: RegisterWindowClass_calls_count)
qed

theorem RegisterClassExW_at_most_once_witness:
  "registrations example_world = 0 \<and>
   registrations (snd (RegisterWindowClass_calls debug_build [0x400000, 0x400000, 0x400000]
     (None, example_world))) = 1"
proof -
  have "registrations example_world = 0"
    by (simp add: registrations_def example_world_def)
  with RegisterClassExW_at_most_once
    [of debug_build "[0x400000, 0x400000, 0x400000]" example_world]
  show ?thesis by simp
qed

section \<open>Frame of the handle and of the saved rectangle\<close>

lemma SetFullscreen_enter_leave:
  assumes windowed: "\<not> g_Fullscreen this"
    and exists: "windows w (g_hWnd this) = Some ow"
  shows "fst (SetFullscreen False (SetFullscreen True (this, w))) =
           this\<lparr>g_Fullscreen := False, g_WindowRect := ow_rect ow\<rparr> \<and>
         windows (snd (SetFullscreen False (SetFullscreen True (this, w)))) (g_hWnd this) =
           Some (ow\<lparr>ow_style := WS_OVERLAPPEDWINDOW, ow_rect := ow_rect ow,
                   ow_zorder := HWND_NOTOPMOST, ow_show := SW_NORMAL\<rparr>)"
proof -
  obtain t1 w1 where s1: "SetFullscreen True (this, w) = (t1, w1)"
    by (cases "SetFullscreen True (this, w)")
  from s1 have t1: "t1 = this\<lparr>g_Fullscreen := True, g_WindowRect := ow_rect ow\<rparr>"
    and ex1: "\<exists>ow1. windows w1 (g_hWnd this) = Some ow1 \<and>
        ow1\<lparr>ow_style := WS_OVERLAPPEDWINDOW, ow_rect := ow_rect ow,
            ow_zorder := HWND_NOTOPMOST, ow_show := SW_NORMAL\<rparr> =
        ow\<lparr>ow_style := WS_OVERLAPPEDWINDOW, ow_rect := ow_rect ow,
            ow_zorder := HWND_NOTOPMOST, ow_show := SW_NORMAL\<rparr>"
    unfolding SetFullscreen_enter [OF windowed exists] by (auto simp: Let_def)
  from ex1 obtain ow1 where ow1: "windows w1 (g_hWnd t1) = Some ow1"
    and same: "ow1\<lparr>ow_style := WS_OVERLAPPEDWINDOW, ow_rect := ow_rect ow,
            ow_zorder := HWND_NOTOPMOST, ow_show := SW_NORMAL\<rparr> =
        ow\<lparr>ow_style := WS_OVERLAPPEDWINDOW, ow_rect := ow_rect ow,
            ow_zorder := HWND_NOTOPMOST, ow_show := SW_NORMAL\<rparr>"
    using t1 by auto
  have full: "g_Fullscreen t1" using t1 by simp
  show ?thesis
    unfolding s1 SetFullscreen_leave [OF full ow1]
    using t1 same by (simp add: Let_def)
qed

lemma SetFullscreen_handle: "g_hWnd (fst (SetFullscreen b (this, w))) = g_hWnd this"
  by (simp add: SetFullscreen_def Let_def split: prod.splits option.splits)

lemma SetFullscreen_saved_rect:
  "g_WindowRect (fst (SetFullscreen b (this, w))) =
     (if b \<and> \<not> g_Fullscreen this
      then (case windows w (g_hWnd this) of None \<Rightarrow> g_WindowRect this | Some ow \<Rightarrow> ow_rect ow)
      else g_WindowRect this)"
  by (simp add: SetFullscreen_def Let_def GetWindowRect_def split: prod.splits option.splits)

lemma SetFullscreen_leave_rect:
  assumes "g_Fullscreen this"
  shows "map_option ow_rect (windows (snd (SetFullscreen False (this, w))) (g_hWnd this)) =
         map_option (\<lambda>ow. g_WindowRect this) (windows w (g_hWnd this))"
proof (cases "windows w (g_hWnd this)")
  case None
  with assms show ?thesis
    by (simp add: SetFullscreen_def Let_def SetWindowLongW_def SetWindowPos_def ShowWindow_def
        logged_def)
next
  case (Some ow)
  show ?thesis
    unfolding SetFullscreen_leave [OF assms Some] using Some by (simp add: Let_def)
qed

text \<open>
  Claim C10. \<open>SetFullscreen\<close> never changes \<open>g_hWnd\<close>. It writes \<open>g_WindowRect\<close> on
  the transition from windowed to fullscreen only (the rectangle \<open>GetWindowRect\<close> gives
  for the window), and leaves it as it was on the transition back and on a call that is
  no transition; the transition back gives the window the saved rectangle. The other
  writer is \<open>CreateWindow\<close>, which saves the rectangle of the window it created;
  \<open>Show\<close> leaves the object alone, and the remaining member functions do not return
  an object at all. So of two enter/exit cycles with the window moved in between, the
  first restores the rectangle the window had at the first entry and the second the one
  it had at the second entry.
\<close>

theorem saved_rectangle_frame:
  "g_hWnd (fst (SetFullscreen b (this, w))) = g_hWnd this \<and>
   g_WindowRect (fst (SetFullscreen b (this, w))) =
     (if b \<and> \<not> g_Fullscreen this
      then (case windows w (g_hWnd this) of None \<Rightarrow> g_WindowRect this | Some ow \<Rightarrow> ow_rect ow)
      else g_WindowRect this) \<and>
   (g_Fullscreen this \<longrightarrow>
      map_option ow_rect (windows (snd (SetFullscreen False (this, w))) (g_hWnd this)) =
      map_option (\<lambda>ow. g_WindowRect this) (windows w (g_hWnd this))) \<and>
   (next_hwnd w \<noteq> NULL \<longrightarrow>
      (case CreateWindow bld hInst windowTitle width height (this, w) of
         (res, this', w') \<Rightarrow>
           res = Inr (g_hWnd this') \<and>
           map_option ow_rect (windows w' (g_hWnd this')) = Some (g_WindowRect this'))) \<and>
   fst (Show (this, w)) = this \<and>
   (\<not> g_Fullscreen this \<and> windows w (g_hWnd this) = Some ow \<and>
    windows v (g_hWnd this) = Some ov \<longrightarrow>
      (let s2 = SetFullscreen False (SetFullscreen True (this, w));
           s4 = SetFullscreen False (SetFullscreen True (fst s2, v))
       in g_WindowRect (fst s2) = ow_rect ow \<and>
          map_option ow_rect (windows (snd s2) (g_hWnd this)) = Some (ow_rect ow) \<and>
          g_WindowRect (fst s4) = ow_rect ov \<and>
          map_option ow_rect (windows (snd s4) (g_hWnd this)) = Some (ow_rect ov)))"
proof (intro conjI impI)
  show "g_hWnd (fst (SetFullscreen b (this, w))) = g_hWnd this"
    by (rule SetFullscreen_handle)
  show "g_WindowRect (fst (SetFullscreen b (this, w))) =
     (if b \<and> \<not> g_Fullscreen this
      then (case windows w (g_hWnd this) of None \<Rightarrow> g_WindowRect this | Some ow \<Rightarrow> ow_rect ow)
      else g_WindowRect this)"
    by (rule SetFullscreen_saved_rect)
  show "fst (Show (this, w)) = this"
    by (simp add: Show_def)
next
  assume "g_Fullscreen this"
  then show "map_option ow_rect (windows (snd (SetFullscreen False (this, w))) (g_hWnd this)) =
      map_option (\<lambda>ow. g_WindowRect this) (windows w (g_hWnd this))"
    by (rule SetFullscreen_leave_rect)
next
  assume h: "next_hwnd w \<noteq> NULL"
  show "case CreateWindow bld hInst windowTitle width height (this, w) of
         (res, this', w') \<Rightarrow>
           res = Inr (g_hWnd this') \<and>
           map_option ow_rect (windows w' (g_hWnd this')) = Some (g_WindowRect this')"
    unfolding CreateWindow_created [OF h] by (simp add: Let_def)
next
  assume a: "\<not> g_Fullscreen this \<and> windows w (g_hWnd this) = Some ow \<and>
    windows v (g_hWnd this) = Some ov"
  define t2 where "t2 = fst (SetFullscreen False (SetFullscreen True (this, w)))"
  from a have first: "t2 = this\<lparr>g_Fullscreen := False, g_WindowRect := ow_rect ow\<rparr>"
    and first_rect: "map_option ow_rect
        (windows (snd (SetFullscreen False (SetFullscreen True (this, w)))) (g_hWnd this)) =
        Some (ow_rect ow)"
    unfolding t2_def using SetFullscreen_enter_leave [of this w ow] by simp_all
  from first a have w2: "\<not> g_Fullscreen t2" and v2: "windows v (g_hWnd t2) = Some ov"
    by simp_all
  from SetFullscreen_enter_leave [OF w2 v2] first
  have "g_WindowRect (fst (SetFullscreen False (SetFullscreen True (t2, v)))) = ow_rect ov"
    and "map_option ow_rect
        (windows (snd (SetFullscreen False (SetFullscreen True (t2, v)))) (g_hWnd this)) =
        Some (ow_rect ov)"
    by simp_all
  with first first_rect
  show "let s2 = SetFullscreen False (SetFullscreen True (this, w));
           s4 = SetFullscreen False (SetFullscreen True (fst s2, v))
       in g_WindowRect (fst s2) = ow_rect ow \<and>
          map_option ow_rect (windows (snd s2) (g_hWnd this)) = Some (ow_rect ow) \<and>
          g_WindowRect (fst s4) = ow_rect ov \<and>
          map_option ow_rect (windows (snd s4) (g_hWnd this)) = Some (ow_rect ov)"
    unfolding Let_def t2_def by simp
qed

theorem saved_rectangle_frame_witness:
  "\<not> g_Fullscreen example_object \<and>
   windows example_world (g_hWnd example_object) = Some example_window \<and>
   windows moved_world (g_hWnd example_object) = Some moved_window \<and>
   next_hwnd example_world \<noteq> NULL \<and>
   g_Fullscreen fullscreen_object \<and>
   (case CreateWindow debug_build 0x400000 ''Test'' 1280 720 (example_object, example_world) of
      (res, this', w') \<Rightarrow>
        res = Inr (g_hWnd this') \<and>
        map_option ow_rect (windows w' (g_hWnd this')) = Some (g_WindowRect this')) \<and>
   map_option ow_rect
     (windows (snd (SetFullscreen False (SetFullscreen True
        (fst (SetFullscreen False (SetFullscreen True (example_object, example_world))),
         moved_world)))) 0x1A2B) =
     Some \<lparr>rect_left = 100, rect_top = 50, rect_right = 1396, rect_bottom = 809\<rparr> \<and>
   map_option ow_rect
     (windows (snd (SetFullscreen False (fullscreen_object, moved_world))) 0x1A2B) =
     Some \<lparr>rect_left = 312, rect_top = 160, rect_right = 1608, rect_bottom = 919\<rparr>"
proof -
  have h1: "\<not> g_Fullscreen example_object"
    and h: "g_hWnd example_object = 0x1A2B"
    by (simp_all add: example_object_def)
  have h2: "windows example_world (g_hWnd example_object) = Some example_window"
    by (simp add: example_object_def example_world_def)
  have h3: "windows moved_world (g_hWnd example_object) = Some moved_window"
    by (simp add: example_object_def moved_world_def)
  have h4: "next_hwnd example_world \<noteq> NULL"
    by (simp add: example_world_def NULL_def)
  have h5: "g_Fullscreen fullscreen_object"
    and h6: "g_hWnd fullscreen_object = 0x1A2B"
    and h7: "g_WindowRect fullscreen_object =
      \<lparr>rect_left = 312, rect_top = 160, rect_right = 1608, rect_bottom = 919\<rparr>"
    by (simp_all add: fullscreen_object_def example_object_def)
  have r: "ow_rect moved_window =
      \<lparr>rect_left = 100, rect_top = 50, rect_right = 1396, rect_bottom = 809\<rparr>"
    by (simp add: moved_window_def)
  have c: "case CreateWindow debug_build 0x400000 ''Test'' 1280 720
      (example_object, example_world) of
      (res, this', w') \<Rightarrow>
        res = Inr (g_hWnd this') \<and>
        map_option ow_rect (windows w' (g_hWnd this')) = Some (g_WindowRect this')"
    by (rule saved_rectangle_frame
        [of True example_object example_world debug_build "0x400000" "''Test''" 1280 720
          example_window moved_world moved_window,
         THEN conjunct2, THEN conjunct2, THEN conjunct2, THEN conjunct1, THEN mp, OF h4])
  from saved_rectangle_frame
    [of True example_object example_world debug_build "0x400000" "''Test''" 1280 720
       example_window moved_world moved_window] h1 h2 h3
  have a: "map_option ow_rect
     (windows (snd (SetFullscreen False (SetFullscreen True
        (fst (SetFullscreen False (SetFullscreen True (example_object, example_world))),
         moved_world)))) 0x1A2B) =
     Some \<lparr>rect_left = 100, rect_top = 50, rect_right = 1396, rect_bottom = 809\<rparr>"
    by (simp add: Let_def h r)
  from saved_rectangle_frame
    [of False fullscreen_object moved_world debug_build "0x400000" "''Test''" 1280 720
       example_window moved_world moved_window] h5
  have b: "map_option ow_rect
     (windows (snd (SetFullscreen False (fullscreen_object, moved_world))) 0x1A2B) =
     Some \<lparr>rect_left = 312, rect_top = 160, rect_right = 1608, rect_bottom = 919\<rparr>"
    by (simp add: h6 h7 moved_world_def)
  from h1 h2 h3 h4 h5 a b c show ?thesis by simp
qed

section \<open>Properties of the tearing query and of the swap chain\<close>

lemma FAILED_iff: "FAILED hr \<longleftrightarrow> \<not> SUCCEEDED hr"
  by (auto simp: FAILED_def SUCCEEDED_def word_sle_eq word_sless_alt)

lemma TRUE_not_FALSE: "FALSE \<noteq> TRUE"
  by (simp add: TRUE_def FALSE_def)

lemma ThrowIfFailed_cases:
  "ThrowIfFailed hr = (if FAILED hr then Inl (Thrown hr) else Inr ())"
  by (simp add: ThrowIfFailed_def)

text \<open>
  Claim C4. \<open>CheckTearingSupport\<close> is a total function of the driver's answers into
  \<open>bool\<close>: it has no assertion and no \<open>ThrowIfFailed\<close>, so no answer makes it abort
  or throw. It is false whenever the factory creation, the upgrade to
  \<open>IDXGIFactory5\<close> or the feature check fails, and true exactly when all three succeed
  and the driver has left \<open>TRUE\<close> in the feature buffer.
\<close>

theorem CheckTearingSupport_result:
  "(FAILED (CreateDXGIFactory1 d) \<longrightarrow> \<not> CheckTearingSupport d) \<and>
   (FAILED (As_IDXGIFactory5 d) \<longrightarrow> \<not> CheckTearingSupport d) \<and>
   (FAILED (fst (CheckFeatureSupport d DXGI_FEATURE_PRESENT_ALLOW_TEARING FALSE 4)) \<longrightarrow>
      \<not> CheckTearingSupport d) \<and>
   CheckTearingSupport d =
     (SUCCEEDED (CreateDXGIFactory1 d) \<and>
      SUCCEEDED (As_IDXGIFactory5 d) \<and>
      SUCCEEDED (fst (CheckFeatureSupport d DXGI_FEATURE_PRESENT_ALLOW_TEARING FALSE 4)) \<and>
      snd (CheckFeatureSupport d DXGI_FEATURE_PRESENT_ALLOW_TEARING FALSE 4) = TRUE)"
proof -
  let ?cfs = "CheckFeatureSupport d DXGI_FEATURE_PRESENT_ALLOW_TEARING FALSE 4"
  have result: "CheckTearingSupport d =
     (SUCCEEDED (CreateDXGIFactory1 d) \<and> SUCCEEDED (As_IDXGIFactory5 d) \<and>
      SUCCEEDED (fst ?cfs) \<and> snd ?cfs = TRUE)"
  proof (cases "SUCCEEDED (CreateDXGIFactory1 d)")
    case False
    then show ?thesis
      by (simp add: CheckTearingSupport_def TRUE_not_FALSE)
  next
    case factory4: True
    show ?thesis
    proof (cases "SUCCEEDED (As_IDXGIFactory5 d)")
      case False
      with factory4 show ?thesis
        by (simp add: CheckTearingSupport_def TRUE_not_FALSE)
    next
      case True
      with factory4 show ?thesis
        by (cases ?cfs) (simp add: CheckTearingSupport_def FAILED_iff TRUE_not_FALSE)
    qed
  qed
  then show ?thesis
    by (simp add: FAILED_iff)
qed

theorem CheckTearingSupport_result_witness:
  "FAILED (As_IDXGIFactory5 old_dxgi) \<and> \<not> CheckTearingSupport old_dxgi \<and>
   CheckTearingSupport example_dxgi"
proof -
  have f: "FAILED (As_IDXGIFactory5 old_dxgi)"
    by (simp add: old_dxgi_def E_NOINTERFACE_def FAILED_def word_sless_alt)
  have s: "SUCCEEDED S_OK"
    by (simp add: S_OK_def SUCCEEDED_def)
  from CheckTearingSupport_result [of old_dxgi] f have "\<not> CheckTearingSupport old_dxgi"
    by blast
  moreover from CheckTearingSupport_result [of example_dxgi] s have "CheckTearingSupport example_dxgi"
    by (simp add: example_dxgi_def)
  ultimately show ?thesis using f by simp
qed

text \<open>
  Claim C5. In the description that \<open>CreateSwapChain\<close> builds, the bit
  \<open>DXGI_SWAP_CHAIN_FLAG_ALLOW_TEARING\<close> of \<open>Flags\<close> is set if and only if
  \<open>CheckTearingSupport\<close> returns true; \<open>Flags\<close> is that one bit when it does and 0
  when it does not; and a swap chain that \<open>CreateSwapChain\<close> returns was created from
  this description.
\<close>

theorem swapChainDesc_tearing_flag:
  "(Flags (swapChainDesc d width height bufferCount) AND DXGI_SWAP_CHAIN_FLAG_ALLOW_TEARING =
      DXGI_SWAP_CHAIN_FLAG_ALLOW_TEARING) = CheckTearingSupport d \<and>
   (CheckTearingSupport d \<longrightarrow>
      Flags (swapChainDesc d width height bufferCount) = DXGI_SWAP_CHAIN_FLAG_ALLOW_TEARING) \<and>
   (\<not> CheckTearingSupport d \<longrightarrow> Flags (swapChainDesc d width height bufferCount) = 0) \<and>
   (\<forall>sc. CreateSwapChain bld d this commandQueue width height bufferCount = Inr sc \<longrightarrow>
      sc_desc sc = swapChainDesc d width height bufferCount)"
proof (intro conjI)
  show "(Flags (swapChainDesc d width height bufferCount) AND DXGI_SWAP_CHAIN_FLAG_ALLOW_TEARING =
      DXGI_SWAP_CHAIN_FLAG_ALLOW_TEARING) = CheckTearingSupport d"
    by (simp add: swapChainDesc_def DXGI_SWAP_CHAIN_FLAG_ALLOW_TEARING_def)
  show "CheckTearingSupport d \<longrightarrow>
      Flags (swapChainDesc d width height bufferCount) = DXGI_SWAP_CHAIN_FLAG_ALLOW_TEARING"
    by (simp add: swapChainDesc_def)
  show "\<not> CheckTearingSupport d \<longrightarrow> Flags (swapChainDesc d width height bufferCount) = 0"
    by (simp add: swapChainDesc_def)
  show "\<forall>sc. CreateSwapChain bld d this commandQueue width height bufferCount = Inr sc \<longrightarrow>
      sc_desc sc = swapChainDesc d width height bufferCount"
    by (auto simp: CreateSwapChain_def Let_def ThrowIfFailed_cases split: if_splits)
qed

theorem swapChainDesc_tearing_flag_witness:
  "CheckTearingSupport example_dxgi \<and>
   Flags (swapChainDesc example_dxgi 1280 720 3) = 2048 \<and>
   \<not> CheckTearingSupport old_dxgi \<and>
   Flags (swapChainDesc old_dxgi 1280 720 3) = 0 \<and>
   map_sum id (Flags \<circ> sc_desc)
     (CreateSwapChain debug_build example_dxgi example_object 0x51DE 1280 720 3) = Inr 2048"
proof -
  have ok: "SUCCEEDED S_OK" and no: "\<not> SUCCEEDED E_NOINTERFACE"
    by (simp_all add: S_OK_def E_NOINTERFACE_def SUCCEEDED_def word_sle_eq)
  have t: "CheckTearingSupport example_dxgi"
    by (simp add: CheckTearingSupport_def example_dxgi_def ok FAILED_iff)
  have f: "\<not> CheckTearingSupport old_dxgi"
    by (simp add: CheckTearingSupport_def old_dxgi_def example_dxgi_def ok no TRUE_not_FALSE)
  have r: "CreateSwapChain debug_build example_dxgi example_object 0x51DE 1280 720 3 =
      Inr \<lparr>sc_queue = 0x51DE, sc_hwnd = g_hWnd example_object,
           sc_desc = swapChainDesc example_dxgi 1280 720 3\<rparr>"
    by (simp add: CreateSwapChain_def Let_def ThrowIfFailed_cases FAILED_iff ok example_dxgi_def)
  from swapChainDesc_tearing_flag [of example_dxgi 1280 720 3] t
    swapChainDesc_tearing_flag [of old_dxgi 1280 720 3] f r
  show ?thesis
    by (simp add: DXGI_SWAP_CHAIN_FLAG_ALLOW_TEARING_def)
qed

text \<open>
  \<open>CreateSwapChain\<close> throws exactly when one of its four platform calls returns a
  failure code; the description it hands over carries \<open>bufferCount\<close> unchanged.
\<close>

lemma CreateSwapChain_rejects_iff:
  "(\<exists>e. CreateSwapChain bld d this commandQueue width height bufferCount = Inl e) =
     (FAILED (CreateDXGIFactory2 d (if def_DEBUG bld then DXGI_CREATE_FACTORY_DEBUG else 0)) \<or>
      FAILED (CreateSwapChainForHwnd d commandQueue (g_hWnd this)
                (swapChainDesc d width height bufferCount)) \<or>
      FAILED (MakeWindowAssociation d (g_hWnd this) DXGI_MWA_NO_ALT_ENTER) \<or>
      FAILED (As_IDXGISwapChain4 d)) \<and>
   BufferCount (swapChainDesc d width height bufferCount) = bufferCount \<and>
   (FAILED (CreateSwapChainForHwnd d commandQueue (g_hWnd this)
              (swapChainDesc d width height bufferCount)) \<longrightarrow>
      (\<exists>e. CreateSwapChain bld d this commandQueue width height bufferCount = Inl e)) \<and>
   (\<forall>sc. CreateSwapChain bld d this commandQueue width height bufferCount = Inr sc \<longrightarrow>
      sc = \<lparr>sc_queue = commandQueue, sc_hwnd = g_hWnd this,
            sc_desc = swapChainDesc d width height bufferCount\<rparr>)"
proof -
  let ?flags = "if def_DEBUG bld then DXGI_CREATE_FACTORY_DEBUG else 0"
  let ?desc = "swapChainDesc d width height bufferCount"
  let ?f1 = "FAILED (CreateDXGIFactory2 d ?flags)"
  let ?f2 = "FAILED (CreateSwapChainForHwnd d commandQueue (g_hWnd this) ?desc)"
  let ?f3 = "FAILED (MakeWindowAssociation d (g_hWnd this) DXGI_MWA_NO_ALT_ENTER)"
  let ?f4 = "FAILED (As_IDXGISwapChain4 d)"
  have thrown: "?f1 \<or> ?f2 \<or> ?f3 \<or> ?f4 \<Longrightarrow>
      \<exists>e. CreateSwapChain bld d this commandQueue width height bufferCount = Inl e"
    by (auto simp: CreateSwapChain_def Let_def ThrowIfFailed_cases)
  have returned: "\<not> (?f1 \<or> ?f2 \<or> ?f3 \<or> ?f4) \<Longrightarrow>
      CreateSwapChain bld d this commandQueue width height bufferCount =
        Inr \<lparr>sc_queue = commandQueue, sc_hwnd = g_hWnd this, sc_desc = ?desc\<rparr>"
    by (simp add: CreateSwapChain_def Let_def ThrowIfFailed_cases)
  have count: "BufferCount ?desc = bufferCount"
    by (simp add: swapChainDesc_def)
  from thrown returned count show ?thesis
    by (cases "?f1 \<or> ?f2 \<or> ?f3 \<or> ?f4") auto
qed

text \<open>
  Claim C7. On a platform that keeps the flip-model minimum of two buffers, every call
  \<open>CreateSwapChain(commandQueue, width, height, 1)\<close> is rejected: it ends with the
  exception of \<open>ThrowIfFailed\<close> and returns no swap chain. The exception carries the
  failure code of the factory creation when that fails, and otherwise the failure code
  with which \<open>CreateSwapChainForHwnd\<close> refuses the one-buffer flip-discard description.
\<close>

theorem CreateSwapChain_single_buffer_rejected:
  assumes rule: "flip_model_minimum d"
  shows "(\<forall>sc. CreateSwapChain bld d this commandQueue width height 1 \<noteq> Inr sc) \<and>
         FAILED (CreateSwapChainForHwnd d commandQueue (g_hWnd this)
                   (swapChainDesc d width height 1)) \<and>
         CreateSwapChain bld d this commandQueue width height 1 =
           Inl (Thrown
             (if FAILED (CreateDXGIFactory2 d
                   (if def_DEBUG bld then DXGI_CREATE_FACTORY_DEBUG else 0))
              then CreateDXGIFactory2 d (if def_DEBUG bld then DXGI_CREATE_FACTORY_DEBUG else 0)
              else CreateSwapChainForHwnd d commandQueue (g_hWnd this)
                     (swapChainDesc d width height 1)))"
proof -
  let ?desc = "swapChainDesc d width height 1"
  have flip: "SwapEffect ?desc = DXGI_SWAP_EFFECT_FLIP_DISCARD"
    and one: "BufferCount ?desc < 2"
    by (simp_all add: swapChainDesc_def)
  with rule have refused: "FAILED (CreateSwapChainForHwnd d commandQueue (g_hWnd this) ?desc)"
    unfolding flip_model_minimum_def by blast
  then have thrown: "CreateSwapChain bld d this commandQueue width height 1 =
      Inl (Thrown
        (if FAILED (CreateDXGIFactory2 d
              (if def_DEBUG bld then DXGI_CREATE_FACTORY_DEBUG else 0))
         then CreateDXGIFactory2 d (if def_DEBUG bld then DXGI_CREATE_FACTORY_DEBUG else 0)
         else CreateSwapChainForHwnd d commandQueue (g_hWnd this) ?desc))"
    by (simp add: CreateSwapChain_def Let_def ThrowIfFailed_cases)
  then have "\<forall>sc. CreateSwapChain bld d this commandQueue width height 1 \<noteq> Inr sc"
    by simp
  with refused thrown show ?thesis
    by simp
qed

theorem CreateSwapChain_single_buffer_rejected_witness:
  "flip_model_minimum strict_dxgi \<and>
   CreateSwapChain debug_build strict_dxgi example_object 0x51DE 1280 720 1 =
     Inl (Thrown DXGI_ERROR_INVALID_CALL) \<and>
   (\<exists>sc. CreateSwapChain debug_build strict_dxgi example_object 0x51DE 1280 720 2 = Inr sc)"
proof -
  have bad: "FAILED DXGI_ERROR_INVALID_CALL" and ok: "\<not> FAILED S_OK"
    by (simp_all add: DXGI_ERROR_INVALID_CALL_def S_OK_def FAILED_def word_sless_alt)
  have rule: "flip_model_minimum strict_dxgi"
    by (simp add: flip_model_minimum_def strict_dxgi_def bad)
  have factory: "\<not> FAILED (CreateDXGIFactory2 strict_dxgi
      (if def_DEBUG debug_build then DXGI_CREATE_FACTORY_DEBUG else 0))"
    by (simp add: strict_dxgi_def example_dxgi_def ok)
  have refusal: "CreateSwapChainForHwnd strict_dxgi 0x51DE (g_hWnd example_object)
      (swapChainDesc strict_dxgi 1280 720 1) = DXGI_ERROR_INVALID_CALL"
    by (simp add: strict_dxgi_def swapChainDesc_def)
  have two: "\<exists>sc. CreateSwapChain debug_build strict_dxgi example_object 0x51DE 1280 720 2 =
      Inr sc"
    by (simp add: CreateSwapChain_def Let_def ThrowIfFailed_cases strict_dxgi_def
        example_dxgi_def swapChainDesc_def ok)
  from CreateSwapChain_single_buffer_rejected
    [OF rule, of debug_build example_object "0x51DE" 1280 720] factory refusal
  have "CreateSwapChain debug_build strict_dxgi example_object 0x51DE 1280 720 1 =
      Inl (Thrown DXGI_ERROR_INVALID_CALL)"
    by simp
  with rule two show ?thesis
    by simp
qed

end
